theory Spec2Isabelle
  imports Main "HOL-Library.Sublist"
begin

section \<open>Python strings\<close>

text \<open>
  A Python \<open>str\<close> is a sequence of Unicode code points, so it is modelled as a list of
  natural numbers. ASCII literals of the script are written \<open>ascii ''...''\<close>; the line feed
  is the code point 10, the backslash 92, and the Chinese literals of the script are given
  by their code points.
\<close>

type_synonym pystr = "nat list"

definition ascii :: "string \<Rightarrow> pystr" where
  "ascii s = map of_char s"

text \<open>The characters \<open>str.isspace\<close> accepts: what \<open>strip()\<close> removes and what \<open>\s\<close> matches.\<close>

definition isspace :: "nat \<Rightarrow> bool" where
  "isspace c \<longleftrightarrow>
     (9 \<le> c \<and> c \<le> 13) \<or> (28 \<le> c \<and> c \<le> 32) \<or> c = 133 \<or> c = 160 \<or> c = 5760 \<or>
     (8192 \<le> c \<and> c \<le> 8202) \<or> c = 8232 \<or> c = 8233 \<or> c = 8239 \<or> c = 8287 \<or> c = 12288"

definition lstrip :: "pystr \<Rightarrow> pystr" where
  "lstrip s = dropWhile isspace s"

definition rstrip :: "pystr \<Rightarrow> pystr" where
  "rstrip s = rev (dropWhile isspace (rev s))"

definition strip :: "pystr \<Rightarrow> pystr" where
  "strip s = lstrip (rstrip s)"

text \<open>\<open>s.rstrip(chars)\<close>: remove every trailing character that occurs in \<open>chars\<close>.\<close>

definition rstrip_chars :: "pystr \<Rightarrow> pystr \<Rightarrow> pystr" where
  "rstrip_chars chars s = rev (dropWhile (\<lambda>c. c \<in> set chars) (rev s))"

text \<open>\<open>sep.join(xs)\<close>.\<close>

fun join :: "pystr \<Rightarrow> pystr list \<Rightarrow> pystr" where
  "join sep [] = []"
| "join sep [x] = x"
| "join sep (x # y # ys) = x @ sep @ join sep (y # ys)"

text \<open>\<open>needle in hay\<close> on strings: \<open>needle\<close> occurs as a contiguous piece of \<open>hay\<close>.\<close>

definition py_in :: "pystr \<Rightarrow> pystr \<Rightarrow> bool" where
  "py_in needle hay = sublist needle hay"

text \<open>\<open>str(n)\<close> for an integer: decimal digits, with a minus sign for a negative number.\<close>

function str_nat :: "nat \<Rightarrow> pystr" where
  "str_nat n = (if n < 10 then [48 + n] else str_nat (n div 10) @ [48 + n mod 10])"
  by pat_completeness auto
termination
  by (relation "measure id") auto

declare str_nat.simps [simp del]

definition str_int :: "int \<Rightarrow> pystr" where
  "str_int i = (if i < 0 then 45 # str_nat (nat (- i)) else str_nat (nat i))"

section \<open>The documentation tree\<close>

text \<open>
  The files below the repository root: a path is the list of its components, a tree maps
  the paths of the files that exist to their text. Reading and writing are taken to
  succeed, and directories are not modelled (\<open>mkdir\<close> changes no file).
\<close>

type_synonym path = "pystr list"
type_synonym tree = "path \<rightharpoonup> pystr"

text \<open>
  \<open>Path.read_text\<close> opens the file in text mode, where a carriage return (13) followed by
  a line feed, and a carriage return alone, are read as one line feed. \<open>write_text\<close> is
  taken to store the text as it is given, which is what it does where the line separator
  is the line feed.
\<close>

fun read_text :: "pystr \<Rightarrow> pystr" where
  "read_text [] = []"
| "read_text [c] = [if c = 13 then 10 else c]"
| "read_text (c # d # cs) =
     (if c = 13 then 10 # (if d = 10 then read_text cs else read_text (d # cs))
      else c # read_text (d # cs))"

definition zh_idx :: path where
  "zh_idx = [ascii ''docs'', ascii ''zh'', ascii ''problem'', ascii ''index.md'']"

definition en_idx :: path where
  "en_idx = [ascii ''docs'', ascii ''en'', ascii ''problem'', ascii ''index.md'']"

section \<open>Index synchronisation\<close>

text \<open>
  The pattern of \<open>update_index\<close> is
  \<^verbatim>\<open>(<header>\n\n)([^\n]+\n)([^\n]+\n)([^\n]+)\<close>
  with the header escaped, so that it matches literally. A greedy \<open>[^\n]+\<close> that must be
  followed by a line feed can only be the whole run of characters up to the next line
  feed, and the run must not be empty; the last group takes the whole run.
\<close>

text \<open>The group \<open>([^\n]+\n)\<close> at the start of \<open>s\<close>: the group and what follows it.\<close>

definition match_line :: "pystr \<Rightarrow> (pystr \<times> pystr) option" where
  "match_line s =
     (let l = takeWhile (\<lambda>c. c \<noteq> 10) s; r = dropWhile (\<lambda>c. c \<noteq> 10) s
      in if l = [] \<or> r = [] then None else Some (l @ [10], tl r))"

text \<open>
  The whole pattern at the start of \<open>s\<close>: the four groups and the text after the match
  (\<open>content[m.end():]\<close>).
\<close>

definition match_table :: "pystr \<Rightarrow> pystr \<Rightarrow> (pystr \<times> pystr \<times> pystr \<times> pystr \<times> pystr) option" where
  "match_table contest_header s =
     (let pre = contest_header @ [10, 10]
      in if \<not> prefix pre s then None
         else case match_line (drop (length pre) s) of
                None \<Rightarrow> None
              | Some (hdr, r1) \<Rightarrow>
                  (case match_line r1 of
                     None \<Rightarrow> None
                   | Some (sep, r2) \<Rightarrow>
                       (let row = takeWhile (\<lambda>c. c \<noteq> 10) r2
                        in if row = [] then None
                           else Some (pre, hdr, sep, row, dropWhile (\<lambda>c. c \<noteq> 10) r2))))"

text \<open>
  \<open>re.search\<close>: the leftmost position where the pattern matches. \<open>passed\<close> is the text
  before the position tried (\<open>content[:m.start()]\<close> at a match).
\<close>

fun search_table ::
  "pystr \<Rightarrow> pystr \<Rightarrow> pystr \<Rightarrow> (pystr \<times> pystr \<times> pystr \<times> pystr \<times> pystr \<times> pystr) option" where
  "search_table contest_header passed [] =
     map_option (Pair passed) (match_table contest_header [])"
| "search_table contest_header passed (c # cs) =
     (case match_table contest_header (c # cs) of
        Some g \<Rightarrow> Some (passed, g)
      | None \<Rightarrow> search_table contest_header (passed @ [c]) cs)"

text \<open>
  Lines 335 to 346 for the translated index and lines 350 to 359 for the original one are
  the same text up to the entry: a new section at the end when the header does not occur,
  one more column in the matched table when it does, and no change when the header occurs
  and the pattern does not match.
\<close>

definition add_entry :: "pystr \<Rightarrow> pystr \<Rightarrow> pystr \<Rightarrow> pystr \<Rightarrow> pystr \<Rightarrow> pystr" where
  "add_entry contest_header problem_index rating entry content =
     (if \<not> py_in contest_header content
      then rstrip content @ [10] @ contest_header @ [10, 10] @
           ascii ''|'' @ problem_index @ ascii '' ['' @ rating @ ascii '']|'' @ [10] @
           ascii ''|:-:|'' @ [10] @ ascii ''|'' @ entry @ ascii ''|'' @ [10, 10]
      else case search_table contest_header [] content of
             None \<Rightarrow> content
           | Some (start, pre, hdr, sep, row, rest) \<Rightarrow>
               start @ pre @
               (rstrip_chars (ascii ''|'') (rstrip hdr) @
                  ascii ''|'' @ problem_index @ ascii '' ['' @ rating @ ascii '']|'' @ [10]) @
               (rstrip_chars (ascii ''|'') (rstrip sep) @ ascii ''|:-:|'' @ [10]) @
               (rstrip_chars (ascii ''|'') (rstrip row) @ ascii ''|'' @ entry @ ascii ''|'' @ [10]) @
               rest)"

definition zh_fragment :: "int \<Rightarrow> pystr \<Rightarrow> pystr" where
  "zh_fragment contest_id problem_index =
     ascii ''/problem/'' @ str_int contest_id @ ascii ''/'' @ problem_index"

definition en_fragment :: "int \<Rightarrow> pystr \<Rightarrow> pystr" where
  "en_fragment contest_id problem_index =
     ascii ''/en/problem/'' @ str_int contest_id @ ascii ''/'' @ problem_index"

text \<open>The entry of the translated index; 65288 and 65289 are the full-width parentheses.\<close>

definition zh_entry :: "int \<Rightarrow> pystr \<Rightarrow> pystr \<Rightarrow> pystr \<Rightarrow> pystr \<Rightarrow> pystr" where
  "zh_entry contest_id problem_index en_title zh_title tags_zh =
     ascii ''['' @ en_title @ [32, 92] @ ascii ''| '' @ zh_title @ ascii ''](''
       @ zh_fragment contest_id problem_index @ ascii '')'' @ [65288] @ tags_zh @ [65289]"

definition en_entry :: "int \<Rightarrow> pystr \<Rightarrow> pystr \<Rightarrow> pystr list \<Rightarrow> pystr" where
  "en_entry contest_id problem_index en_title tags_en =
     ascii ''['' @ en_title @ ascii ''](''
       @ en_fragment contest_id problem_index @ ascii '') ('' @ join (ascii '', '') tags_en
       @ ascii '')''"

definition update_index ::
  "int \<Rightarrow> pystr \<Rightarrow> pystr \<Rightarrow> pystr \<Rightarrow> pystr \<Rightarrow> pystr list \<Rightarrow> pystr \<Rightarrow> tree \<Rightarrow> tree" where
  "update_index contest_id problem_index en_title zh_title rating tags_en tags_zh fs =
     (case fs zh_idx of
        None \<Rightarrow> fs
      | Some stored \<Rightarrow>
          let content = read_text stored
          in if py_in (zh_fragment contest_id problem_index) content then fs
             else
               let contest_header = ascii ''## '' @ str_int contest_id;
                   fs1 = fs(zh_idx \<mapsto>
                           add_entry contest_header problem_index rating
                             (zh_entry contest_id problem_index en_title zh_title tags_zh) content)
               in case fs1 en_idx of
                    None \<Rightarrow> fs1
                  | Some en_stored \<Rightarrow>
                      let en_content = read_text en_stored
                      in if py_in (en_fragment contest_id problem_index) en_content then fs1
                         else fs1(en_idx \<mapsto>
                                add_entry contest_header problem_index rating
                                  (en_entry contest_id problem_index en_title tags_en)
                                  en_content))"

text \<open>
  A line of a table as \<open>update_index\<close> writes it (lines 334 and 343 to 345): it has no line
  feed in it and ends with one \<open>|\<close> (124).
\<close>

definition table_line :: "pystr \<Rightarrow> bool" where
  "table_line l \<longleftrightarrow>
     l \<noteq> [] \<and> last l = 124 \<and> 10 \<notin> set l \<and> (butlast l = [] \<or> last (butlast l) \<noteq> 124)"

section \<open>The outside world\<close>

text \<open>
  What the script does to the world, in the order it happens: the requests it sends, its
  pauses (in milliseconds) and what it prints.
\<close>

datatype event =
    LibrePost pystr pystr pystr
  | MyMemoryGet pystr pystr pystr
  | PageGet int pystr
  | StandingsGet int
  | Sleep nat
  | Print pystr
  | PrintErr pystr

text \<open>
  A parsed page, as \<open>BeautifulSoup\<close> hands it over: strings, and elements with their
  name, the values of their \<open>class\<close> attribute and their children. \<open>Text\<close> is a string of
  the class \<open>NavigableString\<close> or \<open>CData\<close>, the ones \<open>get_text\<close> reads. \<open>Other\<close> is a
  string of any other class: a comment, a declaration, or a string that the parser met
  inside a \<open>script\<close>, \<open>style\<close>, \<open>template\<close>, \<open>rt\<close> or \<open>rp\<close> element, however deep.
\<close>

datatype node = Text pystr | Other pystr | Elem pystr "pystr list" "node list"

text \<open>
  The answers of the two translation services: an exception of the request (with its
  text), or the JSON document. Of the document of LibreTranslate only the key
  \<open>translatedText\<close> is read; of the one of MyMemory whether \<open>responseStatus\<close> is 200 and the
  key \<open>translatedText\<close> of \<open>responseData\<close>. A missing key is \<open>None\<close>.
\<close>

datatype libre_reply = LibreError pystr | LibreJson "pystr option"

datatype mymemory_reply = MyMemoryError pystr | MyMemoryJson bool "pystr option"

datatype page_reply = PageError pystr | Page node

text \<open>One problem of the standings document: its keys \<open>index\<close>, \<open>rating\<close> and \<open>tags\<close>.\<close>

record standing =
  p_index :: "pystr option"
  p_rating :: "int option"
  p_tags :: "pystr list"

text \<open>
  The standings request fails, or gives a document: whether its \<open>status\<close> is \<open>OK\<close>, and
  its problems (none when the keys are missing).
\<close>

datatype standings_reply = StandingsError | Standings bool "standing list"

text \<open>
  The world outside the script. Every answer of a remote service is a function of what
  has happened so far, the request included, so two calls with the same text can be
  answered differently. \<open>str.upper\<close> and \<open>str.lower\<close> are the case mappings of Unicode,
  and \<open>html_to_markdown\<close> (lines 189 to 201) prints an element as text, parses that text
  again with the HTML parser and reads the strings of the result; the three are taken
  as they are.
\<close>

record outside =
  libre_api :: "event list \<Rightarrow> libre_reply"
  mymemory_api :: "event list \<Rightarrow> mymemory_reply"
  codeforces_page :: "event list \<Rightarrow> page_reply"
  codeforces_standings :: "event list \<Rightarrow> standings_reply"
  str_upper :: "pystr \<Rightarrow> pystr"
  str_lower :: "pystr \<Rightarrow> pystr"
  html_to_markdown :: "node \<Rightarrow> pystr"

section \<open>Translation client\<close>

text \<open>22833 and 36133 are the two characters of the word for failure in the messages.\<close>

definition translate_libretranslate ::
  "outside \<Rightarrow> pystr \<Rightarrow> pystr \<Rightarrow> pystr \<Rightarrow> event list \<Rightarrow> pystr \<times> event list" where
  "translate_libretranslate w text source target tr =
     (let tr1 = tr @ [LibrePost text source target]
      in case libre_api w tr1 of
           LibreJson None \<Rightarrow> (text, tr1)
         | LibreJson (Some t) \<Rightarrow> (t, tr1)
         | LibreError e \<Rightarrow>
             ([], tr1 @ [PrintErr (ascii ''  [LibreTranslate '' @ [22833, 36133] @ ascii ''] '' @ e)]))"

definition translate_mymemory ::
  "outside \<Rightarrow> pystr \<Rightarrow> pystr \<Rightarrow> pystr \<Rightarrow> event list \<Rightarrow> pystr \<times> event list" where
  "translate_mymemory w text source target tr =
     (let tr1 = tr @ [MyMemoryGet text source target]
      in case mymemory_api w tr1 of
           MyMemoryJson ok t \<Rightarrow>
             (if ok then (case t of None \<Rightarrow> (text, tr1) | Some t' \<Rightarrow> (t', tr1))
              else ([], tr1))
         | MyMemoryError e \<Rightarrow>
             ([], tr1 @ [PrintErr (ascii ''  [MyMemory '' @ [22833, 36133] @ ascii ''] '' @ e)]))"

definition translate ::
  "outside \<Rightarrow> pystr \<Rightarrow> pystr \<Rightarrow> pystr \<Rightarrow> event list \<Rightarrow> pystr \<times> event list" where
  "translate w text source target tr =
     (if text = [] \<or> strip text = [] then (text, tr)
      else
        let (result, tr1) = translate_libretranslate w text source (ascii ''zh-Hans'') tr;
            (result, tr2) =
              (if result = [] then translate_mymemory w text source (ascii ''zh-CN'') tr1
               else (result, tr1));
            tr3 = tr2 @ [Sleep 500]
        in (if result \<noteq> [] then result else text, tr3))"

text \<open>
  Both services fail on \<open>text\<close> when \<open>translate\<close> is called after the events \<open>tr\<close>: each of
  the two functions returns the empty string, which is also what they return when the
  request raises (lines 78 to 80 and 96 to 98).
\<close>

definition backends_fail :: "outside \<Rightarrow> pystr \<Rightarrow> pystr \<Rightarrow> event list \<Rightarrow> bool" where
  "backends_fail w text source tr \<longleftrightarrow>
     fst (translate_libretranslate w text source (ascii ''zh-Hans'') tr) = [] \<and>
     fst (translate_mymemory w text source (ascii ''zh-CN'')
            (snd (translate_libretranslate w text source (ascii ''zh-Hans'') tr))) = []"

section \<open>Problem records\<close>

record example =
  input :: pystr
  "output" :: pystr

text \<open>
  The translated record has the fields below; the record of a problem has the field
  \<open>full_title\<close> as well.
\<close>

record translated =
  title :: pystr
  description :: pystr
  input_section :: pystr
  output_section :: pystr
  examples :: "example list"
  "note" :: pystr

record problem = translated +
  full_title :: pystr

definition translate_problem ::
  "outside \<Rightarrow> problem \<Rightarrow> event list \<Rightarrow> translated \<times> event list" where
  "translate_problem w problem tr =
     (let (t, tr1) = translate w (title problem) (ascii ''en'') (ascii ''zh'') tr;
          (d, tr2) = translate w (description problem) (ascii ''en'') (ascii ''zh'') tr1;
          (i, tr3) = translate w (input_section problem) (ascii ''en'') (ascii ''zh'') tr2;
          (out, tr4) = translate w (output_section problem) (ascii ''en'') (ascii ''zh'') tr3;
          (n, tr5) =
            (if note problem \<noteq> [] then translate w (note problem) (ascii ''en'') (ascii ''zh'') tr4
             else ([], tr4))
      in (\<lparr>title = t, description = d, input_section = i, output_section = out,
           examples = examples problem, note = n\<rparr>, tr5))"

section \<open>Problem extractor\<close>

text \<open>
  \<open>find("div", class_=c)\<close> and \<open>find_all\<close> look through the descendants of an element in
  document order. An element fits when its name is the one asked for and \<open>c\<close> is one of
  the values of its \<open>class\<close> attribute; \<open>find("pre")\<close> asks for the name only.
\<close>

fun is_div :: "pystr \<Rightarrow> node \<Rightarrow> bool" where
  "is_div c (Text s) = False"
| "is_div c (Other s) = False"
| "is_div c (Elem name classes children) = (name = ascii ''div'' \<and> c \<in> set classes)"

fun is_named :: "pystr \<Rightarrow> node \<Rightarrow> bool" where
  "is_named n (Text s) = False"
| "is_named n (Other s) = False"
| "is_named n (Elem name classes children) = (name = n)"

fun children :: "node \<Rightarrow> node list" where
  "children (Text s) = []"
| "children (Other s) = []"
| "children (Elem name classes ns) = ns"

text \<open>The first node of a forest, in document order, that fits.\<close>

fun find_first :: "(node \<Rightarrow> bool) \<Rightarrow> node list \<Rightarrow> node option" where
  "find_first p [] = None"
| "find_first p (Text s # ns) = (if p (Text s) then Some (Text s) else find_first p ns)"
| "find_first p (Other s # ns) = (if p (Other s) then Some (Other s) else find_first p ns)"
| "find_first p (Elem name classes cs # ns) =
     (if p (Elem name classes cs) then Some (Elem name classes cs)
      else case find_first p cs of
             Some m \<Rightarrow> Some m
           | None \<Rightarrow> find_first p ns)"

text \<open>All nodes of a forest that fit, in document order.\<close>

fun find_all :: "(node \<Rightarrow> bool) \<Rightarrow> node list \<Rightarrow> node list" where
  "find_all p [] = []"
| "find_all p (Text s # ns) = (if p (Text s) then [Text s] else []) @ find_all p ns"
| "find_all p (Other s # ns) = (if p (Other s) then [Other s] else []) @ find_all p ns"
| "find_all p (Elem name classes cs # ns) =
     (if p (Elem name classes cs) then [Elem name classes cs] else [])
       @ find_all p cs @ find_all p ns"

text \<open>The siblings that follow the first node that fits: where \<open>find_next_sibling\<close> looks.\<close>

fun siblings_after :: "(node \<Rightarrow> bool) \<Rightarrow> node list \<Rightarrow> node list option" where
  "siblings_after p [] = None"
| "siblings_after p (Text s # ns) = (if p (Text s) then Some ns else siblings_after p ns)"
| "siblings_after p (Other s # ns) = (if p (Other s) then Some ns else siblings_after p ns)"
| "siblings_after p (Elem name classes cs # ns) =
     (if p (Elem name classes cs) then Some ns
      else case siblings_after p cs of
             Some m \<Rightarrow> Some m
           | None \<Rightarrow> siblings_after p ns)"

text \<open>\<open>decompose()\<close> on the first node that fits: the forest without it, if there is one.\<close>

fun remove_first :: "(node \<Rightarrow> bool) \<Rightarrow> node list \<Rightarrow> node list option" where
  "remove_first p [] = None"
| "remove_first p (Text s # ns) =
     (if p (Text s) then Some ns else map_option ((#) (Text s)) (remove_first p ns))"
| "remove_first p (Other s # ns) =
     (if p (Other s) then Some ns else map_option ((#) (Other s)) (remove_first p ns))"
| "remove_first p (Elem name classes cs # ns) =
     (if p (Elem name classes cs) then Some ns
      else case remove_first p cs of
             Some cs' \<Rightarrow> Some (Elem name classes cs' # ns)
           | None \<Rightarrow> map_option ((#) (Elem name classes cs)) (remove_first p ns))"

text \<open>
  The forest with the first node that fits replaced: how a change made to an element
  that was found shows in the tree it was found in.
\<close>

fun replace_first :: "(node \<Rightarrow> bool) \<Rightarrow> node \<Rightarrow> node list \<Rightarrow> node list" where
  "replace_first p new [] = []"
| "replace_first p new (Text s # ns) =
     (if p (Text s) then new # ns else Text s # replace_first p new ns)"
| "replace_first p new (Other s # ns) =
     (if p (Other s) then new # ns else Other s # replace_first p new ns)"
| "replace_first p new (Elem name classes cs # ns) =
     (if p (Elem name classes cs) then new # ns
      else case find_first p cs of
             Some m \<Rightarrow> Elem name classes (replace_first p new cs) # ns
           | None \<Rightarrow> Elem name classes cs # replace_first p new ns)"

text \<open>
  The parser keeps the strings below the elements with these names in classes of their
  own (\<open>RubyTextString\<close>, \<open>RubyParenthesisString\<close>, \<open>Stylesheet\<close>, \<open>Script\<close>,
  \<open>TemplateString\<close>), and \<open>get_text\<close> on an element of another name leaves them out. In
  a tree as the parser builds it all strings below such an element are \<open>Other\<close>; \<open>strings\<close>
  leaves out what is below such an element in every tree.
\<close>

definition string_containers :: "pystr list" where
  "string_containers =
     [ascii ''rt'', ascii ''rp'', ascii ''style'', ascii ''script'', ascii ''template'']"

text \<open>The strings below a forest that \<open>get_text\<close> reads, in document order.\<close>

fun strings :: "node list \<Rightarrow> pystr list" where
  "strings [] = []"
| "strings (Text s # ns) = s # strings ns"
| "strings (Other s # ns) = strings ns"
| "strings (Elem name classes cs # ns) =
     (if name \<in> set string_containers then [] else strings cs) @ strings ns"

text \<open>\<open>el.get_text()\<close>, and \<open>get_text(separator=" ", strip=True)\<close> of line 141.\<close>

definition get_text :: "node \<Rightarrow> pystr" where
  "get_text el = concat (strings (children el))"

definition get_text_stripped :: "node option \<Rightarrow> pystr" where
  "get_text_stripped el =
     (case el of
        None \<Rightarrow> []
      | Some e \<Rightarrow> join (ascii '' '') (filter (\<lambda>s. s \<noteq> []) (map strip (strings (children e)))))"

text \<open>
  \<open>re.sub(r"^[A-Z]\.\s*", "", full_title)\<close>: the pattern is anchored at the start, so it is
  used at most once.
\<close>

fun strip_letter :: "pystr \<Rightarrow> pystr" where
  "strip_letter (c # d # rest) =
     (if 65 \<le> c \<and> c \<le> 90 \<and> d = 46 then dropWhile isspace rest else c # d # rest)"
| "strip_letter s = s"

text \<open>The text of the first \<open>pre\<close> below a block, or the empty string (lines 213 to 217).\<close>

definition pre_text :: "node \<Rightarrow> pystr" where
  "pre_text block =
     (case find_first (is_named (ascii ''pre'')) (children block) of
        Some pre \<Rightarrow> get_text pre
      | None \<Rightarrow> [])"

text \<open>
  The loop of \<open>parse_examples\<close> over \<open>zip(inputs, outputs)\<close>; \<open>acc\<close> is the list \<open>examples\<close>
  it appends to.
\<close>

fun examples_loop :: "example list \<Rightarrow> (node \<times> node) list \<Rightarrow> example list" where
  "examples_loop acc [] = acc"
| "examples_loop acc ((inp, out) # rest) =
     examples_loop (acc @ [\<lparr>input = pre_text inp, output = pre_text out\<rparr>]) rest"

definition parse_examples :: "node \<Rightarrow> example list" where
  "parse_examples sample_tests =
     (case find_first (is_div (ascii ''sample-test'')) (children sample_tests) of
        None \<Rightarrow> []
      | Some sample_test \<Rightarrow>
          examples_loop []
            (zip (find_all (is_div (ascii ''input'')) (children sample_test))
                 (find_all (is_div (ascii ''output'')) (children sample_test))))"

text \<open>
  \<open>extract_section\<close> removes the first section title below the element and converts what
  is left; the element as changed is returned too, since the page keeps the change.
\<close>

definition extract_section :: "outside \<Rightarrow> node \<Rightarrow> pystr \<times> node" where
  "extract_section w el =
     (let el' = (case remove_first (is_div (ascii ''section-title'')) (children el) of
                   None \<Rightarrow> el
                 | Some cs \<Rightarrow> (case el of Elem name classes old \<Rightarrow> Elem name classes cs
                                         | Text s \<Rightarrow> Text s
                                         | Other s \<Rightarrow> Other s))
      in (html_to_markdown w el', el'))"

text \<open>The section below \<open>ps\<close> with the class \<open>c\<close>, if any, and \<open>ps\<close> after the change.\<close>

definition section_of :: "outside \<Rightarrow> pystr \<Rightarrow> node list \<Rightarrow> pystr \<times> node list" where
  "section_of w c ps =
     (case find_first (is_div c) ps of
        None \<Rightarrow> ([], ps)
      | Some el \<Rightarrow> (let (text, el') = extract_section w el
                    in (text, replace_first (is_div c) el' ps)))"

datatype error = AttributeError

text \<open>What \<open>parse_problem_html\<close> returns: the empty dictionary, or a problem.\<close>

datatype parsed = Empty | Problem problem

definition parse_problem_html :: "outside \<Rightarrow> node \<Rightarrow> error + parsed" where
  "parse_problem_html w soup =
     (case find_first (is_div (ascii ''problem-statement'')) (children soup) of
        None \<Rightarrow> Inr Empty
      | Some ps \<Rightarrow>
          (case find_first (is_div (ascii ''header'')) (children ps) of
             None \<Rightarrow> Inl AttributeError
           | Some header \<Rightarrow>
               let title_el = find_first (is_div (ascii ''title'')) (children header);
                   full_title = get_text_stripped title_el;
                   name = (if full_title \<noteq> [] then strip_letter full_title else []);
                   desc_div =
                     (case siblings_after (is_div (ascii ''header'')) (children ps) of
                        None \<Rightarrow> None
                      | Some sibs \<Rightarrow> List.find (is_named (ascii ''div'')) sibs);
                   description =
                     (case desc_div of None \<Rightarrow> [] | Some d \<Rightarrow> html_to_markdown w d);
                   (input_section, ps1) =
                     section_of w (ascii ''input-specification'') (children ps);
                   (output_section, ps2) = section_of w (ascii ''output-specification'') ps1;
                   examples =
                     (case find_first (is_div (ascii ''sample-tests'')) ps2 of
                        None \<Rightarrow> []
                      | Some sample_tests \<Rightarrow> parse_examples sample_tests);
                   (note_section, ps3) = section_of w (ascii ''note'') ps2
               in Inr (Problem
                    \<lparr>title = name, description = description, input_section = input_section,
                     output_section = output_section, examples = examples,
                     note = note_section, full_title = full_title\<rparr>)))"

text \<open>
  \<open>fetch_problem\<close>: \<open>None\<close> when the request or the extraction raises (the message goes to
  the error stream), else what the extraction returns. 25235, 21462, 22833, 36133 are the
  characters of the message.
\<close>

definition error_text :: "error \<Rightarrow> pystr" where
  "error_text e =
     [39] @ ascii ''NoneType'' @ [39] @ ascii '' object has no attribute '' @ [39] @ ascii ''find'' @ [39]"

definition fetch_problem ::
  "outside \<Rightarrow> int \<Rightarrow> pystr \<Rightarrow> event list \<Rightarrow> parsed option \<times> event list" where
  "fetch_problem w contest_id problem_index tr =
     (let tr1 = tr @ [PageGet contest_id problem_index]
      in case codeforces_page w tr1 of
           PageError e \<Rightarrow>
             (None, tr1 @ [PrintErr ([25235, 21462, 22833, 36133] @ ascii '': '' @ e)])
         | Page soup \<Rightarrow>
             (case parse_problem_html w soup of
                Inl e \<Rightarrow>
                  (None,
                   tr1 @ [PrintErr ([25235, 21462, 22833, 36133] @ ascii '': '' @ error_text e)])
              | Inr r \<Rightarrow> (Some r, tr1)))"

section \<open>Problem metadata\<close>

text \<open>
  What \<open>get_problem_meta\<close> returns: the empty dictionary, or a rating (\<open>None\<close> stands for
  the marker \<open>"?"\<close>) and the tags.
\<close>

datatype meta = NoMeta | Meta "int option" "pystr list"

definition get_problem_meta ::
  "outside \<Rightarrow> int \<Rightarrow> pystr \<Rightarrow> event list \<Rightarrow> meta \<times> event list" where
  "get_problem_meta w contest_id problem_index tr =
     (let tr1 = tr @ [StandingsGet contest_id]
      in case codeforces_standings w tr1 of
           StandingsError \<Rightarrow> (Meta None [], tr1)
         | Standings ok problems \<Rightarrow>
             (if \<not> ok then (NoMeta, tr1)
              else case List.find (\<lambda>p. p_index p = Some problem_index) problems of
                     Some p \<Rightarrow> (Meta (p_rating p) (p_tags p), tr1)
                   | None \<Rightarrow> (Meta None [], tr1)))"

text \<open>\<open>str(meta.get("rating", "?"))\<close> and \<open>meta.get("tags", [])\<close>.\<close>

fun rating_of :: "meta \<Rightarrow> pystr" where
  "rating_of NoMeta = ascii ''?''"
| "rating_of (Meta None tags) = ascii ''?''"
| "rating_of (Meta (Some r) tags) = str_int r"

fun tags_of :: "meta \<Rightarrow> pystr list" where
  "tags_of NoMeta = []"
| "tags_of (Meta r tags) = tags"

definition TAG_MAP :: "(pystr \<times> pystr) list" where
  "TAG_MAP = [
    (ascii ''math'', [25968, 23398]),
    (ascii ''implementation'', [23454, 29616]),
    (ascii ''dp'', ascii ''DP''),
    (ascii ''greedy'', [36138, 24515]),
    (ascii ''brute force'', [26292, 21147]),
    (ascii ''constructive algorithms'', [26500, 36896]),
    (ascii ''sortings'', [25490, 24207]),
    (ascii ''binary search'', [20108, 20998]),
    (ascii ''graphs'', [22270, 35770]),
    (ascii ''trees'', [26641]),
    (ascii ''strings'', [23383, 31526, 20018]),
    (ascii ''data structures'', [25968, 25454, 32467, 26500]),
    (ascii ''geometry'', [20960, 20309]),
    (ascii ''number theory'', [25968, 35770]),
    (ascii ''combinatorics'', [32452, 21512, 25968, 23398]),
    (ascii ''two pointers'', [21452, 25351, 38024]),
    (ascii ''bitmasks'', [20301, 36816, 31639]),
    (ascii ''dfs and similar'', ascii ''DFS''),
    (ascii ''shortest paths'', [26368, 30701, 36335]),
    (ascii ''probabilities'', [27010, 29575]),
    (ascii ''games'', [21338, 24328]),
    (ascii ''flows'', [32593, 32476, 27969]),
    (ascii ''dsu'', [24182, 26597, 38598]),
    (ascii ''divide and conquer'', [20998, 27835]),
    (ascii ''hashing'', [21704, 24076]),
    (ascii ''interactive'', [20132, 20114]),
    (ascii ''schedules'', [35843, 24230]),
    (ascii ''matrices'', [30697, 38453]),
    (ascii ''fft'', ascii ''FFT''),
    (ascii ''ternary search'', [19977, 20998]),
    (ascii ''expression parsing'', [34920, 36798, 24335, 35299, 26512]),
    (ascii ''meet-in-the-middle'', [25240, 21322, 25628, 32034]),
    (ascii ''2-sat'', ascii ''2-SAT''),
    (ascii ''chinese remainder theorem'', [20013, 22269, 21097, 20313, 23450, 29702])]"

text \<open>The tags in Chinese, joined by the full-width comma (65292).\<close>

definition tags_to_chinese :: "outside \<Rightarrow> pystr list \<Rightarrow> pystr" where
  "tags_to_chinese w tags =
     join [65292]
       (map (\<lambda>t. case map_of TAG_MAP (str_lower w t) of Some cn \<Rightarrow> cn | None \<Rightarrow> t) tags)"

section \<open>Document renderer\<close>

text \<open>
  The lines that the loop of \<open>build_zh_md\<close> adds for the examples from the \<open>i\<close>-th on;
  \<open>n\<close> is the number of all examples. 36755, 20837 and 36755, 20986 are the headings for
  the input and for the output.
\<close>

fun zh_example_lines :: "nat \<Rightarrow> nat \<Rightarrow> example list \<Rightarrow> pystr list" where
  "zh_example_lines n i [] = []"
| "zh_example_lines n i (ex # rest) =
     (let sub = (if n > 1 then 32 # str_nat i else [])
      in [[], ascii ''### '' @ [36755, 20837] @ sub,
          [], ascii ''```'', strip (input ex), ascii ''```'', [],
          ascii ''### '' @ [36755, 20986],
          [], ascii ''```'', strip (output ex), ascii ''```'', []])
     @ zh_example_lines n (i + 1) rest"

definition build_zh_lines :: "translated \<Rightarrow> pystr \<Rightarrow> pystr \<Rightarrow> pystr list" where
  "build_zh_lines t problem_index author =
     [ascii ''---'', ascii ''author: '' @ author, ascii ''---'', [],
      ascii ''# '' @ problem_index @ ascii ''. '' @ title t, [],
      ascii ''## '' @ [39064, 30446, 25551, 36848], [],
      description t, []]
     @ (if input_section t \<noteq> []
        then [ascii ''## '' @ [36755, 20837, 26684, 24335], [], input_section t, []] else [])
     @ (if output_section t \<noteq> []
        then [ascii ''## '' @ [36755, 20986, 26684, 24335], [], output_section t, []] else [])
     @ (if examples t \<noteq> []
        then (ascii ''## '' @ [26679, 20363]) # zh_example_lines (length (examples t)) 1 (examples t)
        else [])
     @ (if note t \<noteq> [] then [ascii ''## '' @ [27880, 24847], [], note t, []] else [])"

definition build_zh_md :: "problem \<Rightarrow> translated \<Rightarrow> int \<Rightarrow> pystr \<Rightarrow> pystr \<Rightarrow> pystr" where
  "build_zh_md problem t contest_id problem_index author =
     strip (join [10] (build_zh_lines t problem_index author)) @ [10]"

text \<open>The lines that the loop of \<open>build_en_md\<close> adds; its counter \<open>i\<close> is not used.\<close>

fun en_example_lines :: "nat \<Rightarrow> example list \<Rightarrow> pystr list" where
  "en_example_lines i [] = []"
| "en_example_lines i (ex # rest) =
     [[], ascii ''### Input'',
      [], ascii ''```'', strip (input ex), ascii ''```'', [],
      ascii ''### Output'',
      [], ascii ''```'', strip (output ex), ascii ''```'', []]
     @ en_example_lines (i + 1) rest"

definition build_en_lines :: "problem \<Rightarrow> pystr \<Rightarrow> pystr list" where
  "build_en_lines problem problem_index =
     [ascii ''# '' @ problem_index @ ascii ''. '' @ title problem, [],
      description problem, []]
     @ (if input_section problem \<noteq> []
        then [ascii ''## Input'', [], input_section problem, []] else [])
     @ (if output_section problem \<noteq> []
        then [ascii ''## Output'', [], output_section problem, []] else [])
     @ (if examples problem \<noteq> []
        then ascii ''## Examples'' # en_example_lines 1 (examples problem) else [])
     @ (if note problem \<noteq> [] then [ascii ''## Note'', [], note problem, []] else [])"

definition build_en_md :: "problem \<Rightarrow> int \<Rightarrow> pystr \<Rightarrow> pystr" where
  "build_en_md problem contest_id problem_index =
     strip (join [10] (build_en_lines problem problem_index)) @ [10]"

section \<open>Run controller\<close>

definition problem_file :: "pystr \<Rightarrow> int \<Rightarrow> pystr \<Rightarrow> path" where
  "problem_file lang contest_id problem_index =
     [ascii ''docs'', lang, ascii ''problem'', str_int contest_id, problem_index @ ascii ''.md'']"

text \<open>
  The messages of \<open>run_translate\<close>: the problem is skipped, is being processed, could not
  be fetched, has been saved.
\<close>

definition msg_skip :: "int \<Rightarrow> pystr \<Rightarrow> pystr" where
  "msg_skip contest_id problem_index =
     [36339, 36807] @ ascii '' CF'' @ str_int contest_id @ problem_index @
     [65288, 24050, 23384, 22312, 65292, 20351, 29992] @ ascii '' --force '' @
     [24378, 21046, 35206, 30422, 65289]"

definition msg_processing :: "int \<Rightarrow> pystr \<Rightarrow> pystr" where
  "msg_processing contest_id problem_index =
     [27491, 22312, 22788, 29702] @ ascii '' CF'' @ str_int contest_id @ problem_index @
     ascii ''...''"

definition msg_fetch_failed :: pystr where
  "msg_fetch_failed = ascii ''  '' @ [25235, 21462, 22833, 36133, 65292, 36339, 36807]"

definition msg_saved :: "int \<Rightarrow> pystr \<Rightarrow> pystr" where
  "msg_saved contest_id problem_index =
     ascii ''  '' @ [24050, 20445, 23384] @ ascii '' docs/zh/problem/'' @ str_int contest_id @
     ascii ''/'' @ problem_index @ ascii ''.md''"

text \<open>
  \<open>run_translate\<close> on the files \<open>fs\<close> after the events \<open>tr\<close>: what it returns, the files and
  the events afterwards.
\<close>

definition run_translate ::
  "outside \<Rightarrow> int \<Rightarrow> pystr \<Rightarrow> pystr \<Rightarrow> bool \<Rightarrow> tree \<Rightarrow> event list
     \<Rightarrow> bool \<times> tree \<times> event list" where
  "run_translate w contest_id index author force fs tr =
     (let problem_index = str_upper w index;
          zh_file = problem_file (ascii ''zh'') contest_id problem_index
      in if fs zh_file \<noteq> None \<and> \<not> force
         then (True, fs, tr @ [Print (msg_skip contest_id problem_index)])
         else
           let tr1 = tr @ [Print (msg_processing contest_id problem_index)];
               (fetched, tr2) = fetch_problem w contest_id problem_index tr1
           in case fetched of
                None \<Rightarrow> (False, fs, tr2 @ [Print msg_fetch_failed])
              | Some Empty \<Rightarrow> (False, fs, tr2 @ [Print msg_fetch_failed])
              | Some (Problem problem) \<Rightarrow>
                  let (meta, tr3) = get_problem_meta w contest_id problem_index tr2;
                      tr4 = tr3 @ [Sleep 1000];
                      (t, tr5) = translate_problem w problem tr4;
                      rating = rating_of meta;
                      tags_en = tags_of meta;
                      tags_zh = tags_to_chinese w tags_en;
                      zh_md = build_zh_md problem t contest_id problem_index author;
                      en_md = build_en_md problem contest_id problem_index;
                      fs1 = fs(problem_file (ascii ''zh'') contest_id problem_index \<mapsto> zh_md);
                      fs2 = fs1(problem_file (ascii ''en'') contest_id problem_index \<mapsto> en_md);
                      fs3 = update_index contest_id problem_index (title problem) (title t)
                              rating tags_en tags_zh fs2
                  in (True, fs3, tr5 @ [Print (msg_saved contest_id problem_index)]))"

section \<open>Example data\<close>

text \<open>
  A page, a problem and a world to run the definitions on. In the example world the page
  and the standings are served and both translation services are down; the case mappings
  are the ones of ASCII, and the conversion of an element keeps its strings.
\<close>

definition ascii_upper :: "pystr \<Rightarrow> pystr" where
  "ascii_upper s = map (\<lambda>c. if 97 \<le> c \<and> c \<le> 122 then c - 32 else c) s"

definition ascii_lower :: "pystr \<Rightarrow> pystr" where
  "ascii_lower s = map (\<lambda>c. if 65 \<le> c \<and> c \<le> 90 then c + 32 else c) s"

definition example_header :: "pystr \<Rightarrow> node" where
  "example_header header_text =
     Elem (ascii ''div'') [ascii ''header'']
       [Elem (ascii ''div'') [ascii ''title''] [Text header_text]]"

text \<open>Three input blocks and two output blocks; one block of each kind has no \<open>pre\<close>.\<close>

definition example_sample_test :: node where
  "example_sample_test =
     Elem (ascii ''div'') [ascii ''sample-test'']
       [Elem (ascii ''div'') [ascii ''input'']
          [Elem (ascii ''div'') [ascii ''title''] [Text (ascii ''Input'')],
           Elem (ascii ''pre'') [] [Text (ascii ''1 2'' @ [10])]],
        Elem (ascii ''div'') [ascii ''output'']
          [Elem (ascii ''div'') [ascii ''title''] [Text (ascii ''Output'')],
           Elem (ascii ''pre'') [] [Text (ascii ''3'' @ [10])]],
        Elem (ascii ''div'') [ascii ''input'']
          [Elem (ascii ''div'') [ascii ''title''] [Text (ascii ''Input'')],
           Elem (ascii ''pre'') [] [Text (ascii ''5 7'' @ [10])]],
        Elem (ascii ''div'') [ascii ''output'']
          [Elem (ascii ''div'') [ascii ''title''] [Text (ascii ''Output'')]],
        Elem (ascii ''div'') [ascii ''input'']
          [Elem (ascii ''div'') [ascii ''title''] [Text (ascii ''Input'')]]]"

definition example_samples :: node where
  "example_samples =
     Elem (ascii ''div'') [ascii ''sample-tests'']
       [Elem (ascii ''div'') [ascii ''section-title''] [Text (ascii ''Examples'')],
        example_sample_test]"

definition example_statement :: "pystr \<Rightarrow> node" where
  "example_statement header_text =
     Elem (ascii ''div'') [ascii ''problem-statement'']
       [example_header header_text,
        Elem (ascii ''div'') [] [Elem (ascii ''p'') [] [Text (ascii ''Add two numbers.'')]],
        Elem (ascii ''div'') [ascii ''input-specification'']
          [Elem (ascii ''div'') [ascii ''section-title''] [Text (ascii ''Input'')],
           Elem (ascii ''p'') [] [Text (ascii ''Two integers.'')]],
        Elem (ascii ''div'') [ascii ''output-specification'']
          [Elem (ascii ''div'') [ascii ''section-title''] [Text (ascii ''Output'')],
           Elem (ascii ''p'') [] [Text (ascii ''Their sum.'')]],
        example_samples]"

definition example_page :: "pystr \<Rightarrow> node" where
  "example_page header_text =
     Elem (ascii ''[document]'') [] [example_statement header_text]"

definition example_world :: outside where
  "example_world =
     \<lparr>libre_api = (\<lambda>tr. LibreError (ascii ''timeout'')),
      mymemory_api = (\<lambda>tr. MyMemoryJson False None),
      codeforces_page = (\<lambda>tr. Page (example_page (ascii ''A. Example Title''))),
      codeforces_standings =
        (\<lambda>tr. Standings True
           [\<lparr>p_index = Some (ascii ''A''), p_rating = Some 800, p_tags = [ascii ''math'']\<rparr>]),
      str_upper = ascii_upper,
      str_lower = ascii_lower,
      html_to_markdown = (\<lambda>el. get_text_stripped (Some el))\<rparr>"

text \<open>The record that the extraction gives for the example page.\<close>

definition example_problem :: problem where
  "example_problem =
     \<lparr>title = ascii ''Example Title'', description = ascii ''Add two numbers.'',
      input_section = ascii ''Two integers.'', output_section = ascii ''Their sum.'',
      examples = [\<lparr>input = ascii ''1 2'' @ [10], output = ascii ''3'' @ [10]\<rparr>,
                  \<lparr>input = ascii ''5 7'' @ [10], output = []\<rparr>],
      note = [], full_title = ascii ''A. Example Title''\<rparr>"

text \<open>Index files with a section for contest 1 that lists problem A.\<close>

definition example_zh_index :: pystr where
  "example_zh_index =
     ascii ''# Index'' @ [10, 10] @ ascii ''## 1'' @ [10, 10] @
     ascii ''|A [800]|'' @ [10] @ ascii ''|:-:|'' @ [10] @
     ascii ''|[Sum '' @ [92] @ ascii ''| He](/problem/1/A)'' @ [65288, 25968, 23398, 65289] @
     ascii ''|'' @ [10, 10]"

definition example_en_index :: pystr where
  "example_en_index =
     ascii ''# Index'' @ [10, 10] @ ascii ''## 1'' @ [10, 10] @
     ascii ''|A [800]|'' @ [10] @ ascii ''|:-:|'' @ [10] @
     ascii ''|[Sum](/en/problem/1/A) (math)|'' @ [10, 10]"

text \<open>Index files with a section for contest 1 that lists problem B1, and no problem B.\<close>

definition example_zh_index_b1 :: pystr where
  "example_zh_index_b1 =
     ascii ''# Index'' @ [10, 10] @ ascii ''## 1'' @ [10, 10] @
     ascii ''|B1 [900]|'' @ [10] @ ascii ''|:-:|'' @ [10] @
     ascii ''|[Max '' @ [92] @ ascii ''| Da](/problem/1/B1)'' @ [65288] @ ascii ''DP'' @ [65289] @
     ascii ''|'' @ [10, 10]"

definition example_en_index_b1 :: pystr where
  "example_en_index_b1 =
     ascii ''# Index'' @ [10, 10] @ ascii ''## 1'' @ [10, 10] @
     ascii ''|B1 [900]|'' @ [10] @ ascii ''|:-:|'' @ [10] @
     ascii ''|[Max](/en/problem/1/B1) (dp)|'' @ [10, 10]"

text \<open>
  An index file in which a section of the third level, headed \<open>### 1\<close>, stands before the
  section of contest 1.
\<close>

definition example_zh_index_nested :: pystr where
  "example_zh_index_nested =
     ascii ''### 1'' @ [10, 10] @
     ascii ''|x|'' @ [10] @ ascii ''|-|'' @ [10] @ ascii ''|y|'' @ [10, 10] @
     ascii ''## 1'' @ [10, 10] @
     ascii ''|A [800]|'' @ [10] @ ascii ''|:-:|'' @ [10] @ ascii ''|[Sum](/problem/1/A)|'' @ [10]"

text \<open>An index file whose lines end with a carriage return and a line feed.\<close>

definition example_zh_index_crlf :: pystr where
  "example_zh_index_crlf =
     ascii ''# Index'' @ [13, 10, 13, 10] @ ascii ''## 1'' @ [13, 10, 13, 10] @
     ascii ''|A [800]|'' @ [13, 10] @ ascii ''|:-:|'' @ [13, 10] @
     ascii ''|[Sum](/problem/1/A)|'' @ [13, 10]"

text \<open>An index file without any contest.\<close>

definition example_fresh_index :: pystr where
  "example_fresh_index = ascii ''# Index'' @ [10]"

text \<open>
  A world like the example world in which the page cannot be fetched at first: the request
  fails as long as at most two events have happened, and is served afterwards.
\<close>

definition example_flaky_world :: outside where
  "example_flaky_world =
     example_world\<lparr>codeforces_page :=
       (\<lambda>tr. if length tr \<le> 2 then PageError (ascii ''timeout'')
             else Page (example_page (ascii ''A. Example Title'')))\<rparr>"

text \<open>
  What \<open>translate_problem\<close> makes of the example problem when both translation services are
  down: every field is the original.
\<close>

definition example_translated :: translated where
  "example_translated =
     \<lparr>title = ascii ''Example Title'', description = ascii ''Add two numbers.'',
      input_section = ascii ''Two integers.'', output_section = ascii ''Their sum.'',
      examples = [\<lparr>input = ascii ''1 2'' @ [10], output = ascii ''3'' @ [10]\<rparr>,
                  \<lparr>input = ascii ''5 7'' @ [10], output = []\<rparr>],
      note = []\<rparr>"

text \<open>
  A sample-tests container with two sample-test blocks, each with one input block and one
  output block, and a container that holds one input block and one output block without
  a sample-test block around them.
\<close>

definition example_two_blocks :: node where
  "example_two_blocks =
     Elem (ascii ''div'') [ascii ''sample-tests'']
       [Elem (ascii ''div'') [ascii ''sample-test'']
          [Elem (ascii ''div'') [ascii ''input''] [Elem (ascii ''pre'') [] [Text (ascii ''1'')]],
           Elem (ascii ''div'') [ascii ''output''] [Elem (ascii ''pre'') [] [Text (ascii ''2'')]]],
        Elem (ascii ''div'') [ascii ''sample-test'']
          [Elem (ascii ''div'') [ascii ''input''] [Elem (ascii ''pre'') [] [Text (ascii ''3'')]],
           Elem (ascii ''div'') [ascii ''output''] [Elem (ascii ''pre'') [] [Text (ascii ''4'')]]]]"

definition example_bare_blocks :: node where
  "example_bare_blocks =
     Elem (ascii ''div'') [ascii ''sample-tests'']
       [Elem (ascii ''div'') [ascii ''input''] [Elem (ascii ''pre'') [] [Text (ascii ''1'')]],
        Elem (ascii ''div'') [ascii ''output''] [Elem (ascii ''pre'') [] [Text (ascii ''2'')]]]"

section \<open>Facts about the index synchronisation\<close>

text \<open>
  Reading changes carriage returns only, so a piece of the stored text that has no carriage
  return in it is a piece of the text read. The link fragments have none unless the
  problem index has one.
\<close>

lemma read_text_Cons: "c \<noteq> 13 \<Longrightarrow> read_text (c # xs) = c # read_text xs"
  by (cases xs) simp_all

lemma read_text_plain: "13 \<notin> set s \<Longrightarrow> read_text s = s"
  by (induction s) (simp_all add: read_text_Cons)

lemma read_text_append: "13 \<notin> set F \<Longrightarrow> read_text (F @ B) = F @ read_text B"
  by (induction F) (simp_all add: read_text_Cons)

lemma read_text_keeps:
  assumes "13 \<notin> set F"
  shows "sublist F (read_text (A @ F @ B))"
proof (induction "length A" arbitrary: A rule: less_induct)
  case less
  show ?case
  proof (cases A)
    case Nil
    then show ?thesis using assms by (simp add: read_text_append)
  next
    case (Cons c A')
    show ?thesis
    proof (cases "c = 13")
      case False
      have "sublist F (read_text (A' @ F @ B))"
        using less [of A'] Cons by simp
      then show ?thesis using Cons False by (simp add: read_text_Cons sublist_Cons_right)
    next
      case True
      show ?thesis
      proof (cases A')
        case (Cons d A'')
        note A' = Cons
        have i1: "sublist F (read_text (A' @ F @ B))"
          using less [of A'] \<open>A = c # A'\<close> by simp
        have i2: "sublist F (read_text (A'' @ F @ B))"
          using less [of A''] \<open>A = c # A'\<close> A' by simp
        show ?thesis
          using i1 i2 True \<open>A = c # A'\<close> A' by (simp add: sublist_Cons_right)
      next
        case Nil
        note A' = Nil
        show ?thesis
        proof (cases F)
          case Nil
          then show ?thesis by simp
        next
          case (Cons f F')
          then have f: "f \<noteq> 13" and F': "13 \<notin> set F'" using assms by auto
          show ?thesis
          proof (cases "f = 10")
            case True
            have "read_text (A @ F @ B) = 10 # read_text (F' @ B)"
              using \<open>A = c # A'\<close> A' Cons True \<open>c = 13\<close> by simp
            also have "\<dots> = F @ read_text B"
              using Cons True F' by (simp add: read_text_append)
            finally show ?thesis by simp
          next
            case False
            have "read_text (A @ F @ B) = 10 # read_text (F @ B)"
              using \<open>A = c # A'\<close> A' Cons False \<open>c = 13\<close> by simp
            also have "\<dots> = 10 # F @ read_text B"
              using assms by (simp add: read_text_append)
            finally show ?thesis by (simp add: sublist_Cons_right)
          qed
        qed
      qed
    qed
  qed
qed

lemma py_in_read_text:
  assumes "13 \<notin> set needle" "py_in needle hay"
  shows "py_in needle (read_text hay)"
proof -
  from assms(2) obtain ps ss where "hay = ps @ needle @ ss"
    by (auto simp: py_in_def sublist_def)
  then show ?thesis
    using read_text_keeps [OF assms(1)] by (simp add: py_in_def)
qed

lemma str_nat_plain: "13 \<notin> set (str_nat n)"
  by (induction n rule: str_nat.induct) (subst str_nat.simps, simp)

lemma fragment_plain:
  assumes "13 \<notin> set problem_index"
  shows "13 \<notin> set (zh_fragment contest_id problem_index)"
    and "13 \<notin> set (en_fragment contest_id problem_index)"
  using assms
  by (simp_all add: zh_fragment_def en_fragment_def str_int_def str_nat_plain ascii_def)

lemma fragment_read:
  assumes "13 \<notin> set problem_index"
  shows "py_in (zh_fragment contest_id problem_index) content \<Longrightarrow>
         py_in (zh_fragment contest_id problem_index) (read_text content)"
    and "py_in (en_fragment contest_id problem_index) content \<Longrightarrow>
         py_in (en_fragment contest_id problem_index) (read_text content)"
  using fragment_plain [OF assms] by (simp_all add: py_in_read_text)

lemma idx_distinct: "zh_idx \<noteq> en_idx"
  by (simp add: zh_idx_def en_idx_def ascii_def)

lemma update_index_absent: "fs zh_idx = None \<Longrightarrow>
  update_index c p et zt r te tz fs = fs"
  by (simp add: update_index_def)

lemma update_index_present: "fs zh_idx = Some stored \<Longrightarrow>
  py_in (zh_fragment c p) (read_text stored) \<Longrightarrow> update_index c p et zt r te tz fs = fs"
  by (simp add: update_index_def)

lemma update_index_keeps:
  "fs p \<noteq> None \<Longrightarrow> update_index c i et zt r te tz fs p \<noteq> None"
  by (simp add: update_index_def Let_def split: option.splits)

lemma update_index_other:
  "p \<noteq> zh_idx \<Longrightarrow> p \<noteq> en_idx \<Longrightarrow> update_index c i et zt r te tz fs p = fs p"
  by (simp add: update_index_def Let_def split: option.splits)

lemma update_index_en_present:
  assumes "fs en_idx = Some en_stored" "py_in (en_fragment c i) (read_text en_stored)"
  shows "update_index c i et zt r te tz fs en_idx = Some en_stored"
  using assms idx_distinct by (simp add: update_index_def Let_def split: option.splits)

lemma update_index_zh:
  assumes "fs zh_idx = Some stored" "\<not> py_in (zh_fragment c i) (read_text stored)"
  shows "update_index c i et zt r te tz fs zh_idx =
           Some (add_entry (ascii ''## '' @ str_int c) i r (zh_entry c i et zt tz)
                   (read_text stored))"
  using assms idx_distinct by (simp add: update_index_def Let_def split: option.splits)

lemma update_index_en:
  assumes "fs zh_idx = Some stored" "\<not> py_in (zh_fragment c i) (read_text stored)"
    and "fs en_idx = Some en_stored" "\<not> py_in (en_fragment c i) (read_text en_stored)"
  shows "update_index c i et zt r te tz fs en_idx =
           Some (add_entry (ascii ''## '' @ str_int c) i r (en_entry c i et te)
                   (read_text en_stored))"
  using assms idx_distinct by (simp add: update_index_def Let_def split: option.splits)

lemma update_index_written:
  "\<exists>y. update_index c i et zt r te tz (fs(zf \<mapsto> a, ef \<mapsto> b)) zf = Some y"
proof -
  have "(fs(zf \<mapsto> a, ef \<mapsto> b)) zf \<noteq> None" by simp
  then have "update_index c i et zt r te tz (fs(zf \<mapsto> a, ef \<mapsto> b)) zf \<noteq> None"
    by (rule update_index_keeps)
  then show ?thesis by blast
qed

lemma match_line_line:
  assumes "l \<noteq> []" "10 \<notin> set l"
  shows "match_line (l @ 10 # r) = Some (l @ [10], r)"
proof -
  have t: "takeWhile (\<lambda>c. c \<noteq> 10) (l @ 10 # r) = l"
    using assms(2) by (subst takeWhile_append2) auto
  have d: "dropWhile (\<lambda>c. c \<noteq> 10) (l @ 10 # r) = 10 # r"
    using assms(2) by (subst dropWhile_append2) auto
  show ?thesis using assms(1) by (simp add: match_line_def t d)
qed

lemma last_line:
  assumes "10 \<notin> set l" "S = [] \<or> hd S = 10"
  shows "takeWhile (\<lambda>c. c \<noteq> 10) (l @ S) = l" "dropWhile (\<lambda>c. c \<noteq> 10) (l @ S) = S"
proof -
  have s: "takeWhile (\<lambda>c. c \<noteq> 10) S = []" "dropWhile (\<lambda>c. c \<noteq> 10) S = S"
    using assms(2) by (cases S; simp)+
  show "takeWhile (\<lambda>c. c \<noteq> 10) (l @ S) = l"
    using assms(1) s by (subst takeWhile_append2) auto
  show "dropWhile (\<lambda>c. c \<noteq> 10) (l @ S) = S"
    using assms(1) s by (subst dropWhile_append2) auto
qed

lemma match_table_section:
  assumes "l1 \<noteq> []" "10 \<notin> set l1" "l2 \<noteq> []" "10 \<notin> set l2" "l3 \<noteq> []" "10 \<notin> set l3"
    and "S = [] \<or> hd S = 10"
  shows "match_table H (H @ [10, 10] @ l1 @ [10] @ l2 @ [10] @ l3 @ S)
           = Some (H @ [10, 10], l1 @ [10], l2 @ [10], l3, S)"
proof -
  have m1: "match_line (l1 @ 10 # l2 @ 10 # l3 @ S) = Some (l1 @ [10], l2 @ 10 # l3 @ S)"
    by (rule match_line_line [OF assms(1,2)])
  have m2: "match_line (l2 @ 10 # l3 @ S) = Some (l2 @ [10], l3 @ S)"
    by (rule match_line_line [OF assms(3,4)])
  show ?thesis
    using assms(5)
    by (simp add: match_table_def Let_def m1 m2 last_line [OF assms(6,7)])
qed

lemma match_table_no_prefix: "\<not> prefix (H @ [10, 10]) s \<Longrightarrow> match_table H s = None"
  by (simp add: match_table_def)

lemma search_table_first:
  assumes "\<And>k. k < length P \<Longrightarrow> \<not> prefix (H @ [10, 10]) (drop k (P @ R))"
    and "match_table H R = Some g"
  shows "search_table H B (P @ R) = Some (B @ P, g)"
  using assms
proof (induction P arbitrary: B)
  case Nil
  then show ?case by (cases R) simp_all
next
  case (Cons c P)
  from Cons.prems(1) [of 0] have "match_table H (c # P @ R) = None"
    by (simp add: match_table_no_prefix)
  moreover have "search_table H (B @ [c]) (P @ R) = Some ((B @ [c]) @ P, g)"
  proof (rule Cons.IH)
    fix k assume "k < length P"
    then show "\<not> prefix (H @ [10, 10]) (drop k (P @ R))"
      using Cons.prems(1) [of "Suc k"] by simp
  qed (rule Cons.prems(2))
  ultimately show ?case by simp
qed

lemma first_occurrence:
  assumes n: "\<not> sublist pre (P @ butlast pre)" and k: "k < length P" and ne: "pre \<noteq> []"
  shows "\<not> prefix pre (drop k (P @ pre @ R))"
proof
  assume a: "prefix pre (drop k (P @ pre @ R))"
  let ?D = "drop k P"
  from k have dr: "drop k (P @ pre @ R) = (?D @ butlast pre) @ (last pre # R)"
    using ne by simp
  have len: "length pre \<le> length (?D @ butlast pre)"
    using k ne by (cases pre rule: rev_cases) auto
  have "prefix (?D @ butlast pre) (drop k (P @ pre @ R))"
    unfolding dr by simp
  with a len have "prefix pre (?D @ butlast pre)"
    using prefix_length_prefix by blast
  then obtain z where z: "?D @ butlast pre = pre @ z"
    by (auto simp: prefix_def)
  have "P @ butlast pre = take k P @ (?D @ butlast pre)"
    by (simp flip: append_assoc)
  then have "P @ butlast pre = take k P @ pre @ z"
    by (simp only: z)
  then have "sublist pre (P @ butlast pre)"
    by simp
  then show False using n by simp
qed

lemma pipe_not_space: "\<not> isspace 124"
  by (simp add: isspace_def)

lemma newline_space: "isspace 10"
  by (simp add: isspace_def)

lemma rstrip_cell_row: "rstrip (b @ [124]) = b @ [124]"
  by (simp add: rstrip_def pipe_not_space)

lemma rstrip_cell_line: "rstrip (b @ [124, 10]) = b @ [124]"
  by (simp add: rstrip_def pipe_not_space newline_space)

lemma rstrip_pipe:
  assumes "b = [] \<or> last b \<noteq> 124"
  shows "rstrip_chars [124] (b @ [124]) = b"
proof (cases b rule: rev_cases)
  case Nil
  then show ?thesis by (simp add: rstrip_chars_def)
next
  case (snoc ys y)
  with assms have "y \<noteq> 124" by simp
  with snoc show ?thesis by (simp add: rstrip_chars_def)
qed

lemma add_entry_widens:
  assumes c: "content = P @ H @ [10, 10] @ (b1 @ [124]) @ [10] @ (b2 @ [124]) @ [10] @ (b3 @ [124]) @ S"
    and b1: "10 \<notin> set b1" "b1 = [] \<or> last b1 \<noteq> 124"
    and b2: "10 \<notin> set b2" "b2 = [] \<or> last b2 \<noteq> 124"
    and b3: "10 \<notin> set b3" "b3 = [] \<or> last b3 \<noteq> 124"
    and S: "S = [] \<or> hd S = 10"
    and first: "\<not> py_in (H @ [10, 10]) (P @ H @ [10])"
  shows "add_entry H problem_index rating entry content =
           P @ H @ [10, 10] @
           (b1 @ [124] @ problem_index @ ascii '' ['' @ rating @ ascii '']|'') @ [10] @
           (b2 @ [124] @ ascii '':-:|'') @ [10] @
           (b3 @ [124] @ entry @ ascii ''|'') @ [10] @ S"
proof -
  let ?R = "H @ [10, 10] @ (b1 @ [124]) @ [10] @ (b2 @ [124]) @ [10] @ (b3 @ [124]) @ S"
  have "sublist H (P @ H @ ([10, 10] @ (b1 @ [124]) @ [10] @ (b2 @ [124]) @ [10] @ (b3 @ [124]) @ S))"
    by (rule sublist_appendI)
  then have inn: "py_in H content"
    by (simp add: py_in_def c)
  have m: "match_table H ?R = Some (H @ [10, 10], (b1 @ [124]) @ [10], (b2 @ [124]) @ [10], b3 @ [124], S)"
    using b1(1) b2(1) b3(1) S by (intro match_table_section) auto
  have bl: "butlast (H @ [10, 10]) = H @ [10]"
    by (simp add: butlast_append)
  have fo: "\<And>k. k < length P \<Longrightarrow> \<not> prefix (H @ [10, 10]) (drop k (P @ ?R))"
  proof -
    fix k assume k: "k < length P"
    have "\<not> prefix (H @ [10, 10]) (drop k (P @ (H @ [10, 10]) @
              ((b1 @ [124]) @ [10] @ (b2 @ [124]) @ [10] @ (b3 @ [124]) @ S)))"
      using first k by (intro first_occurrence) (simp_all add: py_in_def bl)
    then show "\<not> prefix (H @ [10, 10]) (drop k (P @ ?R))" by simp
  qed
  have s: "search_table H [] content =
             Some (P, H @ [10, 10], (b1 @ [124]) @ [10], (b2 @ [124]) @ [10], b3 @ [124], S)"
    using search_table_first [OF fo m, of "[]"] by (simp add: c)
  show ?thesis
    unfolding add_entry_def
    by (simp add: inn s ascii_def rstrip_cell_line rstrip_cell_row rstrip_pipe [OF b1(2)]
          rstrip_pipe [OF b2(2)] rstrip_pipe [OF b3(2)])
qed

lemma add_entry_table:
  assumes c: "content = P @ H @ [10, 10] @ l1 @ [10] @ l2 @ [10] @ l3 @ S"
    and l: "table_line l1" "table_line l2" "table_line l3"
    and S: "S = [] \<or> hd S = 10"
    and first: "\<not> py_in (H @ [10, 10]) (P @ H @ [10])"
  shows "add_entry H problem_index rating entry content =
           P @ H @ [10, 10] @
           (l1 @ problem_index @ ascii '' ['' @ rating @ ascii '']|'') @ [10] @
           (l2 @ ascii '':-:|'') @ [10] @
           (l3 @ entry @ ascii ''|'') @ [10] @ S"
proof -
  have d: "\<And>l. table_line l \<Longrightarrow> l = butlast l @ [124] \<and> 10 \<notin> set (butlast l) \<and>
              (butlast l = [] \<or> last (butlast l) \<noteq> 124)"
  proof -
    fix l assume t: "table_line l"
    then have ne: "l \<noteq> []" and l124: "last l = 124" by (simp_all add: table_line_def)
    have "butlast l @ [last l] = l" using ne by (rule append_butlast_last_id)
    then have e: "l = butlast l @ [124]" unfolding l124 by (rule sym)
    from t have "10 \<notin> set l" by (simp add: table_line_def)
    then have "10 \<notin> set (butlast l)" by (meson in_set_butlastD)
    with e t show "l = butlast l @ [124] \<and> 10 \<notin> set (butlast l) \<and>
              (butlast l = [] \<or> last (butlast l) \<noteq> 124)"
      by (simp add: table_line_def)
  qed
  note d1 = d [OF l(1)] and d2 = d [OF l(2)] and d3 = d [OF l(3)]
  have c': "content = P @ H @ [10, 10] @ (butlast l1 @ [124]) @ [10] @ (butlast l2 @ [124]) @ [10]
               @ (butlast l3 @ [124]) @ S"
    using c d1 d2 d3 by simp
  have "add_entry H problem_index rating entry content =
           P @ H @ [10, 10] @
           (butlast l1 @ [124] @ problem_index @ ascii '' ['' @ rating @ ascii '']|'') @ [10] @
           (butlast l2 @ [124] @ ascii '':-:|'') @ [10] @
           (butlast l3 @ [124] @ entry @ ascii ''|'') @ [10] @ S"
    using d1 d2 d3 by (intro add_entry_widens [OF c' _ _ _ _ _ _ S first]) simp_all
  also have "\<dots> = P @ H @ [10, 10] @
           ((butlast l1 @ [124]) @ problem_index @ ascii '' ['' @ rating @ ascii '']|'') @ [10] @
           ((butlast l2 @ [124]) @ ascii '':-:|'') @ [10] @
           ((butlast l3 @ [124]) @ entry @ ascii ''|'') @ [10] @ S"
    by simp
  finally show ?thesis using d1 d2 d3 by simp
qed

text \<open>
  C10. When the translated index file does not exist, or already holds the link fragment
  of the contest and problem, \<open>update_index\<close> leaves the original-language index file as it
  was, also when that file exists and has no entry for the problem yet. The file holds the
  fragment when the text that the script reads from it does; this is so, too, when the
  text as stored holds the fragment and the problem index has no carriage return in it.
\<close>

theorem update_index_skips_en:
  assumes "fs zh_idx = None \<or> (\<exists>content. fs zh_idx = Some content \<and>
             (py_in (zh_fragment contest_id problem_index) (read_text content) \<or>
              13 \<notin> set problem_index \<and>
              py_in (zh_fragment contest_id problem_index) content))"
  shows "update_index contest_id problem_index en_title zh_title rating tags_en tags_zh fs en_idx
           = fs en_idx"
proof -
  from assms consider "fs zh_idx = None"
    | content where "fs zh_idx = Some content"
        "py_in (zh_fragment contest_id problem_index) (read_text content)"
    by (auto dest: fragment_read(1))
  then show ?thesis
    by cases (simp_all add: update_index_absent update_index_present)
qed

theorem update_index_skips_en_witness:
  "[zh_idx \<mapsto> ascii ''(/problem/1/A)'' @ [13, 10], en_idx \<mapsto> ascii ''# Index''] zh_idx
     = Some (ascii ''(/problem/1/A)'' @ [13, 10]) \<and>
   py_in (zh_fragment 1 (ascii ''A'')) (read_text (ascii ''(/problem/1/A)'' @ [13, 10])) \<and>
   13 \<notin> set (ascii ''A'') \<and>
   py_in (zh_fragment 1 (ascii ''A'')) (ascii ''(/problem/1/A)'' @ [13, 10]) \<and>
   \<not> py_in (en_fragment 1 (ascii ''A'')) (read_text (ascii ''# Index'')) \<and>
   update_index 1 (ascii ''A'') (ascii ''T'') (ascii ''Z'') (ascii ''800'') [] []
     [zh_idx \<mapsto> ascii ''(/problem/1/A)'' @ [13, 10], en_idx \<mapsto> ascii ''# Index''] en_idx
     = Some (ascii ''# Index'') \<and>
   update_index 1 (ascii ''A'') (ascii ''T'') (ascii ''Z'') (ascii ''800'') [] []
     [en_idx \<mapsto> ascii ''# Index''] en_idx
     = Some (ascii ''# Index'')"
proof -
  let ?c = "ascii ''(/problem/1/A)'' @ [13, 10]"
  let ?fs = "[zh_idx \<mapsto> ?c, en_idx \<mapsto> ascii ''# Index'']"
  have z: "?fs zh_idx = Some ?c"
    by (simp add: idx_distinct)
  have f: "py_in (zh_fragment 1 (ascii ''A'')) (read_text ?c)"
    by (simp add: py_in_def zh_fragment_def str_int_def str_nat.simps ascii_def sublist_code)
  have a: "13 \<notin> set (ascii ''A'')"
    by (simp add: ascii_def)
  have g: "py_in (zh_fragment 1 (ascii ''A'')) ?c"
    by (simp add: py_in_def zh_fragment_def str_int_def str_nat.simps ascii_def sublist_code)
  have n: "\<not> py_in (en_fragment 1 (ascii ''A'')) (read_text (ascii ''# Index''))"
    by (simp add: py_in_def en_fragment_def str_int_def str_nat.simps ascii_def sublist_code)
  from z f have d: "?fs zh_idx = None
      \<or> (\<exists>content. ?fs zh_idx = Some content \<and>
            (py_in (zh_fragment 1 (ascii ''A'')) (read_text content) \<or>
             13 \<notin> set (ascii ''A'') \<and> py_in (zh_fragment 1 (ascii ''A'')) content))"
    by blast
  have m: "[en_idx \<mapsto> ascii ''# Index''] zh_idx = None
      \<or> (\<exists>content. [en_idx \<mapsto> ascii ''# Index''] zh_idx = Some content \<and>
            (py_in (zh_fragment 1 (ascii ''A'')) (read_text content) \<or>
             13 \<notin> set (ascii ''A'') \<and> py_in (zh_fragment 1 (ascii ''A'')) content))"
    using idx_distinct by simp
  have r1: "update_index 1 (ascii ''A'') (ascii ''T'') (ascii ''Z'') (ascii ''800'') [] []
     ?fs en_idx = Some (ascii ''# Index'')"
    using update_index_skips_en [where fs = "?fs" and contest_id = 1
        and problem_index = "ascii ''A''", OF d]
    by simp
  have r2: "update_index 1 (ascii ''A'') (ascii ''T'') (ascii ''Z'') (ascii ''800'') [] []
     [en_idx \<mapsto> ascii ''# Index''] en_idx = Some (ascii ''# Index'')"
    using update_index_skips_en [where fs = "[en_idx \<mapsto> ascii ''# Index'']" and contest_id = 1
        and problem_index = "ascii ''A''", OF m]
    by simp
  show ?thesis
    by (intro conjI z f a g n r1 r2)
qed

text \<open>
  C4 (as amended). Let the translated index exist, and let its text as the script reads it
  not hold the link fragment of the problem. If that text holds, after some text \<open>P\<close>, the
  header of the contest, an empty line and the three lines of a table as the synchroniser
  writes them, followed by the end of the text or a line feed, and if this is the first
  place where the header is followed by an empty line, then \<open>update_index\<close> appends exactly
  one cell to each of the three lines: the header cell, the separator cell and the cell
  with the entry. The lines as they were are kept in front of the new cells, and the text
  read before the header and after the table is written as it was read. The same holds for
  the original-language index when it exists, its text does not hold its own fragment and
  has this shape. No other file changes. Nothing is said here of a problem whose fragment
  is part of the fragment of a listed problem, as with \<open>B\<close> when \<open>B1\<close> is listed, of a header
  that occurs earlier inside other text, or of the carriage returns of the stored file.
\<close>

theorem update_index_widens:
  assumes zh: "fs zh_idx = Some stored"
    and zh_new: "\<not> py_in (zh_fragment contest_id problem_index) (read_text stored)"
    and H: "H = ascii ''## '' @ str_int contest_id"
  shows
    "(read_text stored = P @ H @ [10, 10] @ hdr @ [10] @ sep @ [10] @ row @ S \<and>
      table_line hdr \<and> table_line sep \<and> table_line row \<and> (S = [] \<or> hd S = 10) \<and>
      \<not> py_in (H @ [10, 10]) (P @ H @ [10]) \<longrightarrow>
        update_index contest_id problem_index en_title zh_title rating tags_en tags_zh fs zh_idx =
          Some (P @ H @ [10, 10] @
                (hdr @ problem_index @ ascii '' ['' @ rating @ ascii '']|'') @ [10] @
                (sep @ ascii '':-:|'') @ [10] @
                (row @ zh_entry contest_id problem_index en_title zh_title tags_zh @ ascii ''|'')
                @ [10] @ S)) \<and>
     (fs en_idx = Some en_stored \<and>
      \<not> py_in (en_fragment contest_id problem_index) (read_text en_stored) \<and>
      read_text en_stored = Q @ H @ [10, 10] @ en_hdr @ [10] @ en_sep @ [10] @ en_row @ T \<and>
      table_line en_hdr \<and> table_line en_sep \<and> table_line en_row \<and> (T = [] \<or> hd T = 10) \<and>
      \<not> py_in (H @ [10, 10]) (Q @ H @ [10]) \<longrightarrow>
        update_index contest_id problem_index en_title zh_title rating tags_en tags_zh fs en_idx =
          Some (Q @ H @ [10, 10] @
                (en_hdr @ problem_index @ ascii '' ['' @ rating @ ascii '']|'') @ [10] @
                (en_sep @ ascii '':-:|'') @ [10] @
                (en_row @ en_entry contest_id problem_index en_title tags_en @ ascii ''|'')
                @ [10] @ T)) \<and>
     (\<forall>p. p \<noteq> zh_idx \<and> p \<noteq> en_idx \<longrightarrow>
        update_index contest_id problem_index en_title zh_title rating tags_en tags_zh fs p = fs p)"
proof (intro conjI impI allI)
  assume a: "read_text stored = P @ H @ [10, 10] @ hdr @ [10] @ sep @ [10] @ row @ S \<and>
      table_line hdr \<and> table_line sep \<and> table_line row \<and> (S = [] \<or> hd S = 10) \<and>
      \<not> py_in (H @ [10, 10]) (P @ H @ [10])"
  then have "add_entry H problem_index rating
             (zh_entry contest_id problem_index en_title zh_title tags_zh) (read_text stored) =
           P @ H @ [10, 10] @
                (hdr @ problem_index @ ascii '' ['' @ rating @ ascii '']|'') @ [10] @
                (sep @ ascii '':-:|'') @ [10] @
                (row @ zh_entry contest_id problem_index en_title zh_title tags_zh @ ascii ''|'')
                @ [10] @ S"
    by (intro add_entry_table) simp_all
  then show "update_index contest_id problem_index en_title zh_title rating tags_en tags_zh fs zh_idx =
          Some (P @ H @ [10, 10] @
                (hdr @ problem_index @ ascii '' ['' @ rating @ ascii '']|'') @ [10] @
                (sep @ ascii '':-:|'') @ [10] @
                (row @ zh_entry contest_id problem_index en_title zh_title tags_zh @ ascii ''|'')
                @ [10] @ S)"
    using update_index_zh [where fs = fs and c = contest_id and i = problem_index, OF zh zh_new]
    by (simp only: H [symmetric])
next
  assume a: "fs en_idx = Some en_stored \<and>
      \<not> py_in (en_fragment contest_id problem_index) (read_text en_stored) \<and>
      read_text en_stored = Q @ H @ [10, 10] @ en_hdr @ [10] @ en_sep @ [10] @ en_row @ T \<and>
      table_line en_hdr \<and> table_line en_sep \<and> table_line en_row \<and> (T = [] \<or> hd T = 10) \<and>
      \<not> py_in (H @ [10, 10]) (Q @ H @ [10])"
  then have en: "fs en_idx = Some en_stored"
    and en_new: "\<not> py_in (en_fragment contest_id problem_index) (read_text en_stored)"
    by blast+
  from a have "add_entry H problem_index rating
             (en_entry contest_id problem_index en_title tags_en) (read_text en_stored) =
           Q @ H @ [10, 10] @
                (en_hdr @ problem_index @ ascii '' ['' @ rating @ ascii '']|'') @ [10] @
                (en_sep @ ascii '':-:|'') @ [10] @
                (en_row @ en_entry contest_id problem_index en_title tags_en @ ascii ''|'')
                @ [10] @ T"
    by (intro add_entry_table) simp_all
  then show "update_index contest_id problem_index en_title zh_title rating tags_en tags_zh fs en_idx =
          Some (Q @ H @ [10, 10] @
                (en_hdr @ problem_index @ ascii '' ['' @ rating @ ascii '']|'') @ [10] @
                (en_sep @ ascii '':-:|'') @ [10] @
                (en_row @ en_entry contest_id problem_index en_title tags_en @ ascii ''|'')
                @ [10] @ T)"
    using update_index_en [where fs = fs and c = contest_id and i = problem_index,
        OF zh zh_new en en_new]
    by (simp only: H [symmetric])
next
  fix p assume "p \<noteq> zh_idx \<and> p \<noteq> en_idx"
  then show "update_index contest_id problem_index en_title zh_title rating tags_en tags_zh fs p = fs p"
    by (simp add: update_index_other)
qed

lemma example_index_plain:
  "read_text example_zh_index = example_zh_index"
  "read_text example_en_index = example_en_index"
  "read_text example_zh_index_b1 = example_zh_index_b1"
  "read_text example_en_index_b1 = example_en_index_b1"
  "read_text example_zh_index_nested = example_zh_index_nested"
  "read_text example_fresh_index = example_fresh_index"
  by (rule read_text_plain,
      simp add: example_zh_index_def example_en_index_def example_zh_index_b1_def
        example_en_index_b1_def example_zh_index_nested_def example_fresh_index_def ascii_def)+

lemma example_index_crlf:
  "read_text example_zh_index_crlf =
     ascii ''# Index'' @ [10, 10] @ ascii ''## 1'' @ [10, 10] @
     ascii ''|A [800]|'' @ [10] @ ascii ''|:-:|'' @ [10] @
     ascii ''|[Sum](/problem/1/A)|'' @ [10]"
  by (simp add: example_zh_index_crlf_def ascii_def)

theorem update_index_widens_witness:
  "[zh_idx \<mapsto> example_zh_index, en_idx \<mapsto> example_en_index] zh_idx = Some example_zh_index \<and>
   \<not> py_in (zh_fragment 1 (ascii ''B'')) (read_text example_zh_index) \<and>
   \<not> py_in (en_fragment 1 (ascii ''B'')) (read_text example_en_index) \<and>
   table_line (ascii ''|A [800]|'') \<and> table_line (ascii ''|:-:|'') \<and>
   table_line (ascii ''|[Sum '' @ [92] @ ascii ''| He](/problem/1/A)'' @
     [65288, 25968, 23398, 65289] @ ascii ''|'') \<and>
   table_line (ascii ''|[Sum](/en/problem/1/A) (math)|'') \<and>
   \<not> py_in (ascii ''## 1'' @ [10, 10]) (ascii ''# Index'' @ [10, 10] @ ascii ''## 1'' @ [10]) \<and>
   update_index 1 (ascii ''B'') (ascii ''Max'') (ascii ''Da'') (ascii ''900'') [ascii ''dp'']
       (ascii ''DP'') [zh_idx \<mapsto> example_zh_index, en_idx \<mapsto> example_en_index] zh_idx =
     Some (ascii ''# Index'' @ [10, 10] @ ascii ''## 1'' @ [10, 10] @
        ascii ''|A [800]|B [900]|'' @ [10] @ ascii ''|:-:|:-:|'' @ [10] @
        ascii ''|[Sum '' @ [92] @ ascii ''| He](/problem/1/A)'' @ [65288, 25968, 23398, 65289] @
        ascii ''|[Max '' @ [92] @ ascii ''| Da](/problem/1/B)'' @ [65288] @ ascii ''DP'' @ [65289] @
        ascii ''|'' @ [10] @ [10, 10]) \<and>
   update_index 1 (ascii ''B'') (ascii ''Max'') (ascii ''Da'') (ascii ''900'') [ascii ''dp'']
       (ascii ''DP'') [zh_idx \<mapsto> example_zh_index, en_idx \<mapsto> example_en_index] en_idx =
     Some (ascii ''# Index'' @ [10, 10] @ ascii ''## 1'' @ [10, 10] @
        ascii ''|A [800]|B [900]|'' @ [10] @ ascii ''|:-:|:-:|'' @ [10] @
        ascii ''|[Sum](/en/problem/1/A) (math)|[Max](/en/problem/1/B) (dp)|'' @ [10] @ [10, 10]) \<and>
   update_index 1 (ascii ''B'') (ascii ''Max'') (ascii ''Da'') (ascii ''900'') [ascii ''dp'']
       (ascii ''DP'') [zh_idx \<mapsto> example_zh_index, en_idx \<mapsto> example_en_index]
       [ascii ''README.md''] = None"
proof -
  let ?fs = "[zh_idx \<mapsto> example_zh_index, en_idx \<mapsto> example_en_index]"
  let ?P = "ascii ''# Index'' @ [10, 10]"
  let ?H = "ascii ''## 1''"
  let ?l1 = "ascii ''|A [800]|''"
  let ?l2 = "ascii ''|:-:|''"
  let ?l3 = "ascii ''|[Sum '' @ [92] @ ascii ''| He](/problem/1/A)'' @
     [65288, 25968, 23398, 65289] @ ascii ''|''"
  let ?m3 = "ascii ''|[Sum](/en/problem/1/A) (math)|''"
  let ?S = "[10, 10] :: pystr"
  have zc: "read_text example_zh_index = ?P @ ?H @ [10, 10] @ ?l1 @ [10] @ ?l2 @ [10] @ ?l3 @ ?S"
    by (simp add: example_index_plain) (simp add: example_zh_index_def)
  have ec: "read_text example_en_index = ?P @ ?H @ [10, 10] @ ?l1 @ [10] @ ?l2 @ [10] @ ?m3 @ ?S"
    by (simp add: example_index_plain) (simp add: example_en_index_def)
  have zh: "?fs zh_idx = Some example_zh_index"
    using idx_distinct by simp
  have en: "?fs en_idx = Some example_en_index"
    by simp
  have H: "?H = ascii ''## '' @ str_int 1"
    by (simp add: ascii_def str_int_def str_nat.simps)
  have t1: "table_line ?l1" and t2: "table_line ?l2" and t3: "table_line ?l3"
    and t4: "table_line ?m3"
    by (simp_all add: table_line_def ascii_def)
  have first: "\<not> py_in (?H @ [10, 10]) (?P @ ?H @ [10])"
    by (simp add: py_in_def ascii_def sublist_code)
  have zn: "\<not> py_in (zh_fragment 1 (ascii ''B'')) (read_text example_zh_index)"
    by (simp add: example_index_plain)
       (simp add: py_in_def zh_fragment_def example_zh_index_def str_int_def str_nat.simps
        ascii_def sublist_code)
  have en_n: "\<not> py_in (en_fragment 1 (ascii ''B'')) (read_text example_en_index)"
    by (simp add: example_index_plain)
       (simp add: py_in_def en_fragment_def example_en_index_def str_int_def str_nat.simps
        ascii_def sublist_code)
  have other: "[ascii ''README.md''] \<noteq> zh_idx \<and> [ascii ''README.md''] \<noteq> en_idx"
    by (simp add: zh_idx_def en_idx_def)
  have S: "?S = [] \<or> hd ?S = 10"
    by simp
  note w = update_index_widens [where fs = "?fs" and contest_id = 1
      and problem_index = "ascii ''B''" and en_title = "ascii ''Max''" and zh_title = "ascii ''Da''"
      and rating = "ascii ''900''" and tags_en = "[ascii ''dp'']" and tags_zh = "ascii ''DP''"
      and stored = example_zh_index and en_stored = example_en_index
      and P = "?P" and Q = "?P" and hdr = "?l1" and sep = "?l2" and row = "?l3" and S = "?S"
      and en_hdr = "?l1" and en_sep = "?l2" and en_row = "?m3" and T = "?S",
      OF zh zn H]
  have rz: "update_index 1 (ascii ''B'') (ascii ''Max'') (ascii ''Da'') (ascii ''900'') [ascii ''dp'']
       (ascii ''DP'') ?fs zh_idx =
     Some (?P @ ?H @ [10, 10] @
                (?l1 @ ascii ''B'' @ ascii '' ['' @ ascii ''900'' @ ascii '']|'') @ [10] @
                (?l2 @ ascii '':-:|'') @ [10] @
                (?l3 @ zh_entry 1 (ascii ''B'') (ascii ''Max'') (ascii ''Da'') (ascii ''DP'')
                   @ ascii ''|'')
                @ [10] @ ?S)"
    using w [THEN conjunct1] zc t1 t2 t3 S first by blast
  have re: "update_index 1 (ascii ''B'') (ascii ''Max'') (ascii ''Da'') (ascii ''900'') [ascii ''dp'']
       (ascii ''DP'') ?fs en_idx =
     Some (?P @ ?H @ [10, 10] @
                (?l1 @ ascii ''B'' @ ascii '' ['' @ ascii ''900'' @ ascii '']|'') @ [10] @
                (?l2 @ ascii '':-:|'') @ [10] @
                (?m3 @ en_entry 1 (ascii ''B'') (ascii ''Max'') [ascii ''dp''] @ ascii ''|'')
                @ [10] @ ?S)"
    using w [THEN conjunct2, THEN conjunct1] en en_n ec t1 t2 t4 S first by blast
  have ro: "update_index 1 (ascii ''B'') (ascii ''Max'') (ascii ''Da'') (ascii ''900'') [ascii ''dp'']
       (ascii ''DP'') ?fs [ascii ''README.md''] = ?fs [ascii ''README.md'']"
    using w [THEN conjunct2, THEN conjunct2] other by blast
  have rz': "update_index 1 (ascii ''B'') (ascii ''Max'') (ascii ''Da'') (ascii ''900'') [ascii ''dp'']
       (ascii ''DP'') ?fs zh_idx =
     Some (ascii ''# Index'' @ [10, 10] @ ascii ''## 1'' @ [10, 10] @
        ascii ''|A [800]|B [900]|'' @ [10] @ ascii ''|:-:|:-:|'' @ [10] @
        ascii ''|[Sum '' @ [92] @ ascii ''| He](/problem/1/A)'' @ [65288, 25968, 23398, 65289] @
        ascii ''|[Max '' @ [92] @ ascii ''| Da](/problem/1/B)'' @ [65288] @ ascii ''DP'' @ [65289] @
        ascii ''|'' @ [10] @ [10, 10])"
    unfolding rz
    by (simp add: zh_entry_def zh_fragment_def str_int_def str_nat.simps ascii_def)
  have re': "update_index 1 (ascii ''B'') (ascii ''Max'') (ascii ''Da'') (ascii ''900'') [ascii ''dp'']
       (ascii ''DP'') ?fs en_idx =
     Some (ascii ''# Index'' @ [10, 10] @ ascii ''## 1'' @ [10, 10] @
        ascii ''|A [800]|B [900]|'' @ [10] @ ascii ''|:-:|:-:|'' @ [10] @
        ascii ''|[Sum](/en/problem/1/A) (math)|[Max](/en/problem/1/B) (dp)|'' @ [10] @ [10, 10])"
    unfolding re
    by (simp add: en_entry_def en_fragment_def str_int_def str_nat.simps ascii_def)
  have ro': "update_index 1 (ascii ''B'') (ascii ''Max'') (ascii ''Da'') (ascii ''900'') [ascii ''dp'']
       (ascii ''DP'') ?fs [ascii ''README.md''] = None"
    using ro other by simp
  have first': "\<not> py_in (ascii ''## 1'' @ [10, 10])
      (ascii ''# Index'' @ [10, 10] @ ascii ''## 1'' @ [10])"
    using first by simp
  show ?thesis
    by (intro conjI zh zn en_n t1 t2 t3 t4 first' rz' re' ro')
qed

theorem update_index_widens_counterexample:
  "\<not> py_in (ascii ''/problem/1/B)'') example_zh_index_b1 \<and>
   \<not> py_in (ascii ''|B ['') example_zh_index_b1 \<and>
   py_in (zh_fragment 1 (ascii ''B'')) (read_text example_zh_index_b1) \<and>
   update_index 1 (ascii ''B'') (ascii ''Min'') (ascii ''Xiao'') (ascii ''800'') [ascii ''math'']
     [25968, 23398] [zh_idx \<mapsto> example_zh_index_b1, en_idx \<mapsto> example_en_index_b1] =
     [zh_idx \<mapsto> example_zh_index_b1, en_idx \<mapsto> example_en_index_b1] \<and>
   update_index 1 (ascii ''B'') (ascii ''Min'') (ascii ''Xiao'') (ascii ''800'') [ascii ''math'']
     [25968, 23398] [zh_idx \<mapsto> example_zh_index_nested] zh_idx =
     Some (ascii ''### 1'' @ [10, 10] @
           ascii ''|x|B [800]|'' @ [10] @ ascii ''|-|:-:|'' @ [10] @
           ascii ''|y|[Min '' @ [92] @ ascii ''| Xiao](/problem/1/B)'' @
             [65288, 25968, 23398, 65289] @ ascii ''|'' @ [10] @ [10, 10] @
           ascii ''## 1'' @ [10, 10] @
           ascii ''|A [800]|'' @ [10] @ ascii ''|:-:|'' @ [10] @ ascii ''|[Sum](/problem/1/A)|'' @ [10]) \<and>
   update_index 1 (ascii ''B'') (ascii ''Min'') (ascii ''Xiao'') (ascii ''800'') [ascii ''math'']
     [25968, 23398] [zh_idx \<mapsto> example_zh_index_crlf] zh_idx =
     Some (ascii ''# Index'' @ [10, 10] @ ascii ''## 1'' @ [10, 10] @
           ascii ''|A [800]|B [800]|'' @ [10] @ ascii ''|:-:|:-:|'' @ [10] @
           ascii ''|[Sum](/problem/1/A)|[Min '' @ [92] @ ascii ''| Xiao](/problem/1/B)'' @
             [65288, 25968, 23398, 65289] @ ascii ''|'' @ [10] @ [10])"
proof -
  let ?H = "ascii ''## 1''"
  let ?e = "zh_entry 1 (ascii ''B'') (ascii ''Min'') (ascii ''Xiao'') [25968, 23398]"
  have H: "ascii ''## '' @ str_int 1 = ?H"
    by (simp add: ascii_def str_int_def str_nat.simps)
  have t: "table_line (ascii ''|x|'')" "table_line (ascii ''|-|'')" "table_line (ascii ''|y|'')"
    "table_line (ascii ''|A [800]|'')" "table_line (ascii ''|:-:|'')"
    "table_line (ascii ''|[Sum](/problem/1/A)|'')"
    by (simp_all add: table_line_def ascii_def)
  have p: "py_in (zh_fragment 1 (ascii ''B'')) (read_text example_zh_index_b1)"
    by (simp add: example_index_plain)
       (simp add: py_in_def zh_fragment_def example_zh_index_b1_def str_int_def str_nat.simps
        ascii_def sublist_code)
  have q: "\<not> py_in (ascii ''/problem/1/B)'') example_zh_index_b1"
    "\<not> py_in (ascii ''|B ['') example_zh_index_b1"
    by (simp_all add: py_in_def example_zh_index_b1_def ascii_def sublist_code)
  have one: "update_index 1 (ascii ''B'') (ascii ''Min'') (ascii ''Xiao'') (ascii ''800'')
     [ascii ''math''] [25968, 23398] [zh_idx \<mapsto> example_zh_index_b1, en_idx \<mapsto> example_en_index_b1] =
     [zh_idx \<mapsto> example_zh_index_b1, en_idx \<mapsto> example_en_index_b1]"
    using p idx_distinct by (intro update_index_present [where stored = example_zh_index_b1]) simp_all
  have n2: "\<not> py_in (zh_fragment 1 (ascii ''B'')) (read_text example_zh_index_nested)"
    by (simp add: example_index_plain)
       (simp add: py_in_def zh_fragment_def example_zh_index_nested_def str_int_def str_nat.simps
        ascii_def sublist_code)
  have c2: "read_text example_zh_index_nested =
      [35] @ ?H @ [10, 10] @ ascii ''|x|'' @ [10] @ ascii ''|-|'' @ [10] @ ascii ''|y|'' @
      ([10, 10] @ ascii ''## 1'' @ [10, 10] @
       ascii ''|A [800]|'' @ [10] @ ascii ''|:-:|'' @ [10] @ ascii ''|[Sum](/problem/1/A)|'' @ [10])"
    by (simp add: example_index_plain) (simp add: example_zh_index_nested_def ascii_def)
  have f2: "\<not> py_in (?H @ [10, 10]) ([35] @ ?H @ [10])"
    by (simp add: py_in_def ascii_def sublist_code)
  have a2: "add_entry ?H (ascii ''B'') (ascii ''800'') ?e (read_text example_zh_index_nested) =
      [35] @ ?H @ [10, 10] @
      (ascii ''|x|'' @ ascii ''B'' @ ascii '' ['' @ ascii ''800'' @ ascii '']|'') @ [10] @
      (ascii ''|-|'' @ ascii '':-:|'') @ [10] @
      (ascii ''|y|'' @ ?e @ ascii ''|'') @ [10] @
      ([10, 10] @ ascii ''## 1'' @ [10, 10] @
       ascii ''|A [800]|'' @ [10] @ ascii ''|:-:|'' @ [10] @ ascii ''|[Sum](/problem/1/A)|'' @ [10])"
    using t f2 by (intro add_entry_table [OF c2]) simp_all
  have two: "update_index 1 (ascii ''B'') (ascii ''Min'') (ascii ''Xiao'') (ascii ''800'')
     [ascii ''math''] [25968, 23398] [zh_idx \<mapsto> example_zh_index_nested] zh_idx =
     Some (ascii ''### 1'' @ [10, 10] @
           ascii ''|x|B [800]|'' @ [10] @ ascii ''|-|:-:|'' @ [10] @
           ascii ''|y|[Min '' @ [92] @ ascii ''| Xiao](/problem/1/B)'' @
             [65288, 25968, 23398, 65289] @ ascii ''|'' @ [10] @ [10, 10] @
           ascii ''## 1'' @ [10, 10] @
           ascii ''|A [800]|'' @ [10] @ ascii ''|:-:|'' @ [10] @ ascii ''|[Sum](/problem/1/A)|'' @ [10])"
    using update_index_zh [where fs = "[zh_idx \<mapsto> example_zh_index_nested]" and c = 1
        and i = "ascii ''B''" and stored = example_zh_index_nested, OF _ n2]
    by (simp add: H a2) (simp add: zh_entry_def zh_fragment_def str_int_def str_nat.simps ascii_def)
  have n3: "\<not> py_in (zh_fragment 1 (ascii ''B'')) (read_text example_zh_index_crlf)"
    by (simp add: example_index_crlf)
       (simp add: py_in_def zh_fragment_def str_int_def str_nat.simps ascii_def sublist_code)
  have c3: "read_text example_zh_index_crlf =
      (ascii ''# Index'' @ [10, 10]) @ ?H @ [10, 10] @ ascii ''|A [800]|'' @ [10] @
      ascii ''|:-:|'' @ [10] @ ascii ''|[Sum](/problem/1/A)|'' @ [10]"
    by (simp add: example_index_crlf)
  have f3: "\<not> py_in (?H @ [10, 10]) ((ascii ''# Index'' @ [10, 10]) @ ?H @ [10])"
    by (simp add: py_in_def ascii_def sublist_code)
  have a3: "add_entry ?H (ascii ''B'') (ascii ''800'') ?e (read_text example_zh_index_crlf) =
      (ascii ''# Index'' @ [10, 10]) @ ?H @ [10, 10] @
      (ascii ''|A [800]|'' @ ascii ''B'' @ ascii '' ['' @ ascii ''800'' @ ascii '']|'') @ [10] @
      (ascii ''|:-:|'' @ ascii '':-:|'') @ [10] @
      (ascii ''|[Sum](/problem/1/A)|'' @ ?e @ ascii ''|'') @ [10] @ [10]"
    using t f3 by (intro add_entry_table [OF c3]) simp_all
  have three: "update_index 1 (ascii ''B'') (ascii ''Min'') (ascii ''Xiao'') (ascii ''800'')
     [ascii ''math''] [25968, 23398] [zh_idx \<mapsto> example_zh_index_crlf] zh_idx =
     Some (ascii ''# Index'' @ [10, 10] @ ascii ''## 1'' @ [10, 10] @
           ascii ''|A [800]|B [800]|'' @ [10] @ ascii ''|:-:|:-:|'' @ [10] @
           ascii ''|[Sum](/problem/1/A)|[Min '' @ [92] @ ascii ''| Xiao](/problem/1/B)'' @
             [65288, 25968, 23398, 65289] @ ascii ''|'' @ [10] @ [10])"
    using update_index_zh [where fs = "[zh_idx \<mapsto> example_zh_index_crlf]" and c = 1
        and i = "ascii ''B''" and stored = example_zh_index_crlf, OF _ n3]
    by (simp add: H a3) (simp add: zh_entry_def zh_fragment_def str_int_def str_nat.simps ascii_def)
  show ?thesis
    by (intro conjI q p one two three)
qed

section \<open>Facts about the translation and the run\<close>

lemma strip_blank: 
  assumes "\<forall>c\<in>set text. isspace c" shows "strip text = []"
proof -
  have d: "dropWhile isspace (rev text) = []"
    using assms by (simp add: dropWhile_eq_Nil_conv)
  show ?thesis unfolding strip_def lstrip_def rstrip_def d by simp
qed

lemma strip_empty_blank:
  assumes "strip text = []" shows "\<forall>c\<in>set text. isspace c"
proof -
  let ?d = "dropWhile isspace (rev text)"
  from assms have a: "\<forall>c\<in>set ?d. isspace c"
    by (simp add: strip_def lstrip_def rstrip_def dropWhile_eq_Nil_conv)
  have "?d = []"
  proof (rule ccontr)
    assume n: "?d \<noteq> []"
    then have "\<not> isspace (hd ?d)" by (rule hd_dropWhile)
    moreover from n a have "isspace (hd ?d)" by simp
    ultimately show False by simp
  qed
  then show ?thesis by (simp add: dropWhile_eq_Nil_conv)
qed

lemma translate_libretranslate_error:
  "libre_api w (tr @ [LibrePost text source target]) = LibreError e \<Longrightarrow>
   fst (translate_libretranslate w text source target tr) = []"
  by (simp add: translate_libretranslate_def Let_def)

lemma translate_mymemory_error:
  "mymemory_api w (tr @ [MyMemoryGet text source target]) = MyMemoryError e \<Longrightarrow>
   fst (translate_mymemory w text source target tr) = []"
  by (simp add: translate_mymemory_def Let_def)

lemma translate_both_fail:
  assumes "fst (translate_libretranslate w text source (ascii ''zh-Hans'') tr) = []"
    and "fst (translate_mymemory w text source (ascii ''zh-CN'')
               (snd (translate_libretranslate w text source (ascii ''zh-Hans'') tr))) = []"
  shows "fst (translate w text source target tr) = text"
  using assms by (auto simp: translate_def Let_def split: prod.splits)

lemma translate_fails:
  "backends_fail w text source tr \<Longrightarrow> fst (translate w text source target tr) = text"
  unfolding backends_fail_def by (rule translate_both_fail) simp_all






lemma run_translate_skip:
  assumes "fs (problem_file (ascii ''zh'') contest_id (str_upper w index)) \<noteq> None"
  shows "run_translate w contest_id index author False fs tr =
           (True, fs, tr @ [Print (msg_skip contest_id (str_upper w index))])"
  using assms by (simp add: run_translate_def Let_def)

lemma run_translate_true:
  assumes "run_translate w contest_id index author force fs tr = (True, fs1, tr1)"
  shows "fs1 (problem_file (ascii ''zh'') contest_id (str_upper w index)) \<noteq> None"
  using assms
  by (auto simp: run_translate_def Let_def update_index_written
      split: if_splits prod.splits option.splits parsed.splits)

lemma run_translate_false:
  assumes "run_translate w contest_id index author force fs tr = (False, fs1, tr1)"
  shows "fs1 = fs"
  using assms
  by (auto simp: run_translate_def Let_def split: if_splits prod.splits option.splits parsed.splits)

lemma parse_no_statement:
  "find_first (is_div (ascii ''problem-statement'')) (children soup) = None \<Longrightarrow>
   parse_problem_html w soup = Inr Empty"
  by (simp add: parse_problem_html_def)

lemma run_translate_empty:
  assumes go: "fs (problem_file (ascii ''zh'') contest_id (str_upper w index)) = None \<or> force"
    and page: "codeforces_page w (tr @ [Print (msg_processing contest_id (str_upper w index)),
                 PageGet contest_id (str_upper w index)]) = Page soup"
    and none: "find_first (is_div (ascii ''problem-statement'')) (children soup) = None"
  shows "run_translate w contest_id index author force fs tr =
           (False, fs, tr @ [Print (msg_processing contest_id (str_upper w index)),
              PageGet contest_id (str_upper w index), Print msg_fetch_failed])"
  using go page by (auto simp: run_translate_def Let_def fetch_problem_def parse_no_statement [OF none])

lemma run_translate_fetch_error:
  assumes go: "fs (problem_file (ascii ''zh'') contest_id (str_upper w index)) = None \<or> force"
    and page: "codeforces_page w (tr @ [Print (msg_processing contest_id (str_upper w index)),
                 PageGet contest_id (str_upper w index)]) = PageError e"
  shows "run_translate w contest_id index author force fs tr =
           (False, fs, tr @ [Print (msg_processing contest_id (str_upper w index)),
              PageGet contest_id (str_upper w index),
              PrintErr ([25235, 21462, 22833, 36133] @ ascii '': '' @ e), Print msg_fetch_failed])"
  using go page by (auto simp: run_translate_def Let_def fetch_problem_def)

lemma run_translate_goes_on:
  assumes go: "fs (problem_file (ascii ''zh'') contest_id (str_upper w index)) = None \<or> force"
    and f: "fst (fetch_problem w contest_id (str_upper w index)
               (tr @ [Print (msg_processing contest_id (str_upper w index))])) = Some (Problem p)"
  shows "fst (run_translate w contest_id index author force fs tr)"
  using go f by (auto simp: run_translate_def Let_def split: prod.splits)

lemma example_world_simps:
  "libre_api example_world tr = LibreError (ascii ''timeout'')"
  "mymemory_api example_world tr = MyMemoryJson False None"
  "codeforces_page example_world tr = Page (example_page (ascii ''A. Example Title''))"
  "str_upper example_world = ascii_upper"
  "str_lower example_world = ascii_lower"
  by (simp_all add: example_world_def)

lemma parse_example:
  "parse_problem_html example_world (example_page (ascii ''A. Example Title'')) =
     Inr (Problem example_problem)"
  by (simp add: parse_problem_html_def example_page_def example_statement_def example_header_def
      example_samples_def example_sample_test_def example_world_def example_problem_def
      section_of_def extract_section_def parse_examples_def pre_text_def get_text_def
      get_text_stripped_def string_containers_def strip_def lstrip_def rstrip_def isspace_def
      ascii_def Let_def)

lemma fetch_example:
  "fetch_problem example_world 1 (ascii ''A'') tr =
     (Some (Problem example_problem), tr @ [PageGet 1 (ascii ''A'')])"
  by (simp add: fetch_problem_def Let_def example_world_simps parse_example)


lemma upper_a: "ascii_upper (ascii ''a'') = ascii ''A''"
  by (simp add: ascii_upper_def ascii_def)

text \<open>
  C9. For a text that is empty or consists of whitespace only, \<open>translate\<close> returns the text
  as it is and leaves the events as they were: no request goes to either translation
  service and there is no pause.
\<close>

theorem translate_blank:
  assumes "\<forall>c\<in>set text. isspace c"
  shows "translate w text source target tr = (text, tr)"
  using strip_blank [OF assms] by (simp add: translate_def)

theorem translate_blank_witness:
  "isspace 32 \<and> isspace 9 \<and> isspace 12288 \<and>
   translate example_world [32, 9, 12288] (ascii ''en'') (ascii ''zh'') [] = ([32, 9, 12288], [])"
proof -
  have s: "\<forall>c\<in>set [32, 9, 12288]. isspace c"
    by (simp add: isspace_def)
  from translate_blank [OF s] show ?thesis
    by (simp add: isspace_def)
qed

text \<open>
  C2. The examples of the record that \<open>translate_problem\<close> returns are the examples of the
  problem it was given: the same list, so the same inputs and outputs in the same order,
  whatever the translation services answer.
\<close>

theorem translate_problem_examples:
  "examples (fst (translate_problem w problem tr)) = examples problem"
  by (simp add: translate_problem_def Let_def split: prod.splits)



text \<open>
  C6. A page without the problem-statement block makes \<open>parse_problem_html\<close> return the empty
  record, and \<open>run_translate\<close> then does what it does when the page cannot be fetched: it
  prints the same message, returns \<open>False\<close> and leaves every file as it was. The two runs
  differ only in the message that \<open>fetch_problem\<close> writes to the error stream when the
  request fails.
\<close>

theorem missing_statement_is_fetch_failure:
  "let upper = str_upper w index;
       zh_file = problem_file (ascii ''zh'') contest_id upper;
       asked = tr @ [Print (msg_processing contest_id upper), PageGet contest_id upper]
   in (find_first (is_div (ascii ''problem-statement'')) (children soup) = None \<longrightarrow>
         parse_problem_html w soup = Inr Empty) \<and>
      ((fs zh_file = None \<or> force) \<longrightarrow> codeforces_page w asked = Page soup \<longrightarrow>
         find_first (is_div (ascii ''problem-statement'')) (children soup) = None \<longrightarrow>
         run_translate w contest_id index author force fs tr =
           (False, fs, asked @ [Print msg_fetch_failed])) \<and>
      ((fs zh_file = None \<or> force) \<longrightarrow> codeforces_page w asked = PageError e \<longrightarrow>
         run_translate w contest_id index author force fs tr =
           (False, fs,
            asked @ [PrintErr ([25235, 21462, 22833, 36133] @ ascii '': '' @ e),
                     Print msg_fetch_failed]))"
  unfolding Let_def
  by (intro conjI impI) (simp_all add: parse_no_statement run_translate_empty run_translate_fetch_error)

theorem missing_statement_is_fetch_failure_witness:
  "find_first (is_div (ascii ''problem-statement''))
     (children (Elem (ascii ''[document]'') [] [Elem (ascii ''p'') [] [Text (ascii ''Please wait'')]]))
     = None \<and>
   parse_problem_html example_world
     (Elem (ascii ''[document]'') [] [Elem (ascii ''p'') [] [Text (ascii ''Please wait'')]])
     = Inr Empty \<and>
   run_translate
     (example_world\<lparr>codeforces_page := \<lambda>tr. Page
        (Elem (ascii ''[document]'') [] [Elem (ascii ''p'') [] [Text (ascii ''Please wait'')]])\<rparr>)
     1 (ascii ''a'') (ascii ''me'') False Map.empty [] =
     (False, Map.empty,
      [Print (msg_processing 1 (ascii ''A'')), PageGet 1 (ascii ''A''), Print msg_fetch_failed]) \<and>
   run_translate (example_world\<lparr>codeforces_page := \<lambda>tr. PageError (ascii ''timeout'')\<rparr>)
     1 (ascii ''a'') (ascii ''me'') False Map.empty [] =
     (False, Map.empty,
      [Print (msg_processing 1 (ascii ''A'')), PageGet 1 (ascii ''A''),
       PrintErr ([25235, 21462, 22833, 36133] @ ascii '': '' @ ascii ''timeout''),
       Print msg_fetch_failed])"
proof -
  let ?page = "Elem (ascii ''[document]'') [] [Elem (ascii ''p'') [] [Text (ascii ''Please wait'')]]"
  let ?w1 = "example_world\<lparr>codeforces_page := \<lambda>tr. Page ?page\<rparr>"
  let ?w2 = "example_world\<lparr>codeforces_page := \<lambda>tr. PageError (ascii ''timeout'')\<rparr>"
  have n: "find_first (is_div (ascii ''problem-statement'')) (children ?page) = None"
    by (simp add: ascii_def)
  have u1: "str_upper ?w1 (ascii ''a'') = ascii ''A''" and u2: "str_upper ?w2 (ascii ''a'') = ascii ''A''"
    by (simp_all add: example_world_simps upper_a)
  note a = missing_statement_is_fetch_failure [where w = example_world and soup = "?page"
      and index = "ascii ''a''" and contest_id = 1 and tr = "[]" and fs = Map.empty and force = False
      and author = "ascii ''me''", unfolded Let_def]
  note b = missing_statement_is_fetch_failure [where w = "?w1" and soup = "?page"
      and index = "ascii ''a''" and contest_id = 1 and tr = "[]" and fs = Map.empty and force = False
      and author = "ascii ''me''", unfolded Let_def u1]
  note c = missing_statement_is_fetch_failure [where w = "?w2" and soup = "?page"
      and index = "ascii ''a''" and contest_id = 1 and tr = "[]" and fs = Map.empty and force = False
      and author = "ascii ''me''" and e = "ascii ''timeout''", unfolded Let_def u2]
  have p: "parse_problem_html example_world ?page = Inr Empty"
    using a n by blast
  have r1: "run_translate ?w1 1 (ascii ''a'') (ascii ''me'') False Map.empty [] =
     (False, Map.empty,
      [Print (msg_processing 1 (ascii ''A'')), PageGet 1 (ascii ''A''), Print msg_fetch_failed])"
    using b n by simp
  have r2: "run_translate ?w2 1 (ascii ''a'') (ascii ''me'') False Map.empty [] =
     (False, Map.empty,
      [Print (msg_processing 1 (ascii ''A'')), PageGet 1 (ascii ''A''),
       PrintErr ([25235, 21462, 22833, 36133] @ ascii '': '' @ ascii ''timeout''),
       Print msg_fetch_failed])"
    using c by simp
  show ?thesis
    by (intro conjI n p r1 r2)
qed

lemma problem_file_not_index:
  "problem_file lang c i \<noteq> zh_idx" "problem_file lang c i \<noteq> en_idx"
  by (simp_all add: problem_file_def zh_idx_def en_idx_def)

lemma run_translate_result:
  assumes go: "fs (problem_file (ascii ''zh'') contest_id (str_upper w index)) = None \<or> force"
    and f: "fetch_problem w contest_id (str_upper w index)
              (tr @ [Print (msg_processing contest_id (str_upper w index))]) = (Some (Problem p), tr2)"
    and m: "get_problem_meta w contest_id (str_upper w index) tr2 = (meta, tr3)"
    and t: "translate_problem w p (tr3 @ [Sleep 1000]) = (t, tr5)"
  shows "run_translate w contest_id index author force fs tr =
           (True,
            update_index contest_id (str_upper w index) (title p) (title t) (rating_of meta)
              (tags_of meta) (tags_to_chinese w (tags_of meta))
              (fs(problem_file (ascii ''zh'') contest_id (str_upper w index) \<mapsto>
                    build_zh_md p t contest_id (str_upper w index) author,
                  problem_file (ascii ''en'') contest_id (str_upper w index) \<mapsto>
                    build_en_md p contest_id (str_upper w index))),
            tr5 @ [Print (msg_saved contest_id (str_upper w index))])"
  using go f m t by (auto simp: run_translate_def Let_def)

lemma translate_down:
  assumes "\<And>tr. \<exists>e. libre_api w tr = LibreError e"
    and "\<And>tr. mymemory_api w tr = MyMemoryJson False None"
  shows "fst (translate w text source target tr) = text"
proof -
  have "backends_fail w text source tr"
    using assms(1) [of "tr @ [LibrePost text source (ascii ''zh-Hans'')]"] assms(2)
    by (auto simp: backends_fail_def translate_libretranslate_def translate_mymemory_def Let_def)
  then show ?thesis by (rule translate_fails)
qed

lemma translate_problem_down:
  assumes "\<And>tr. \<exists>e. libre_api w tr = LibreError e"
    and "\<And>tr. mymemory_api w tr = MyMemoryJson False None"
  shows "fst (translate_problem w p tr) =
           \<lparr>title = title p, description = description p, input_section = input_section p,
            output_section = output_section p, examples = examples p, note = note p\<rparr>"
  by (simp add: translate_problem_def Let_def case_prod_beta translate_down [OF assms])

lemma example_flaky_world_simps:
  "libre_api example_flaky_world tr = LibreError (ascii ''timeout'')"
  "mymemory_api example_flaky_world tr = MyMemoryJson False None"
  "codeforces_page example_flaky_world tr =
     (if length tr \<le> 2 then PageError (ascii ''timeout'')
      else Page (example_page (ascii ''A. Example Title'')))"
  "codeforces_standings example_flaky_world tr =
     Standings True
       [\<lparr>p_index = Some (ascii ''A''), p_rating = Some 800, p_tags = [ascii ''math'']\<rparr>]"
  "str_upper example_flaky_world = ascii_upper"
  "str_lower example_flaky_world = ascii_lower"
  "html_to_markdown example_flaky_world = html_to_markdown example_world"
  by (simp_all add: example_flaky_world_def example_world_def)

lemma parse_html_world:
  assumes "html_to_markdown w' = html_to_markdown w"
  shows "parse_problem_html w' soup = parse_problem_html w soup"
proof -
  have e: "extract_section w' = extract_section w"
    by (rule ext) (simp add: extract_section_def assms)
  have s: "section_of w' = section_of w"
    by (intro ext) (unfold section_of_def e, rule refl)
  show ?thesis
    unfolding parse_problem_html_def s assms by (rule refl)
qed

text \<open>
  C1 (as amended). An index file that already holds the link fragment of a contest and
  problem is not changed by \<open>update_index\<close>: with the fragment in the translated index no
  file changes at all, and with the fragment of the original-language index in that file,
  that file stays as it is. The file holds the fragment when the text that the script
  reads from it does, or when the text as stored does and the problem index has no
  carriage return in it. And when a run of
  \<open>run_translate\<close> has returned \<open>True\<close>, a further run for the same contest and problem without
  \<open>force\<close> changes no file, whatever the world answers then: it prints that the problem is
  skipped and returns \<open>True\<close>. After a run that has returned \<open>False\<close> this does not hold: that
  run has written nothing, and the next one fetches the page again and, when it gets it,
  writes both documents and both index files.
\<close>

theorem rerun_changes_nothing:
  "let first_run = run_translate w contest_id index author force fs tr;
       fs1 = fst (snd first_run)
   in (fs zh_idx = Some content \<longrightarrow>
         (py_in (zh_fragment contest_id problem_index) (read_text content) \<or>
          13 \<notin> set problem_index \<and> py_in (zh_fragment contest_id problem_index) content) \<longrightarrow>
         update_index contest_id problem_index en_title zh_title rating tags_en tags_zh fs = fs) \<and>
      (fs en_idx = Some en_content \<longrightarrow>
         (py_in (en_fragment contest_id problem_index) (read_text en_content) \<or>
          13 \<notin> set problem_index \<and>
          py_in (en_fragment contest_id problem_index) en_content) \<longrightarrow>
         update_index contest_id problem_index en_title zh_title rating tags_en tags_zh fs en_idx
           = Some en_content) \<and>
      (fst first_run \<longrightarrow> str_upper w' = str_upper w \<longrightarrow>
         run_translate w' contest_id index author' False fs1 tr' =
           (True, fs1, tr' @ [Print (msg_skip contest_id (str_upper w index))]))"
proof -
  have a: "fs zh_idx = Some content \<longrightarrow>
         (py_in (zh_fragment contest_id problem_index) (read_text content) \<or>
          13 \<notin> set problem_index \<and> py_in (zh_fragment contest_id problem_index) content) \<longrightarrow>
         update_index contest_id problem_index en_title zh_title rating tags_en tags_zh fs = fs"
    using fragment_read(1) update_index_present by blast
  have b: "fs en_idx = Some en_content \<longrightarrow>
         (py_in (en_fragment contest_id problem_index) (read_text en_content) \<or>
          13 \<notin> set problem_index \<and>
          py_in (en_fragment contest_id problem_index) en_content) \<longrightarrow>
         update_index contest_id problem_index en_title zh_title rating tags_en tags_zh fs en_idx
           = Some en_content"
    using fragment_read(2) update_index_en_present by blast
  have c: "fst (run_translate w contest_id index author force fs tr) \<longrightarrow>
      str_upper w' = str_upper w \<longrightarrow>
      run_translate w' contest_id index author' False
        (fst (snd (run_translate w contest_id index author force fs tr))) tr' =
      (True, fst (snd (run_translate w contest_id index author force fs tr)),
       tr' @ [Print (msg_skip contest_id (str_upper w index))])"
  proof (intro impI)
    assume t: "fst (run_translate w contest_id index author force fs tr)"
      and u: "str_upper w' = str_upper w"
    obtain fs1 tr1 where r: "run_translate w contest_id index author force fs tr = (True, fs1, tr1)"
      using t by (cases "run_translate w contest_id index author force fs tr") auto
    have "fs1 (problem_file (ascii ''zh'') contest_id (str_upper w' index)) \<noteq> None"
      using run_translate_true [OF r] by (simp add: u)
    then have "run_translate w' contest_id index author' False fs1 tr' =
        (True, fs1, tr' @ [Print (msg_skip contest_id (str_upper w' index))])"
      by (rule run_translate_skip)
    then show "run_translate w' contest_id index author' False
        (fst (snd (run_translate w contest_id index author force fs tr))) tr' =
      (True, fst (snd (run_translate w contest_id index author force fs tr)),
       tr' @ [Print (msg_skip contest_id (str_upper w index))])"
      by (simp add: r u)
  qed
  show ?thesis
    unfolding Let_def by (intro conjI a b c)
qed

theorem rerun_changes_nothing_witness:
  "py_in (zh_fragment 1 (ascii ''A'')) (read_text example_zh_index) \<and>
   update_index 1 (ascii ''A'') (ascii ''Sum'') (ascii ''He'') (ascii ''800'') [ascii ''math'']
     [25968, 23398] [zh_idx \<mapsto> example_zh_index, en_idx \<mapsto> example_en_index]
     = [zh_idx \<mapsto> example_zh_index, en_idx \<mapsto> example_en_index] \<and>
   py_in (en_fragment 1 (ascii ''A'')) (read_text example_en_index) \<and>
   update_index 1 (ascii ''A'') (ascii ''Sum'') (ascii ''He'') (ascii ''800'') [ascii ''math'']
     [25968, 23398] [zh_idx \<mapsto> example_zh_index, en_idx \<mapsto> example_en_index] en_idx
     = Some example_en_index \<and>
   fst (run_translate example_world 1 (ascii ''a'') (ascii ''me'') False
          [zh_idx \<mapsto> example_zh_index, en_idx \<mapsto> example_en_index] []) \<and>
   run_translate (example_world\<lparr>codeforces_page := \<lambda>tr. PageError (ascii ''timeout'')\<rparr>)
     1 (ascii ''a'') (ascii ''you'') False
     (fst (snd (run_translate example_world 1 (ascii ''a'') (ascii ''me'') False
        [zh_idx \<mapsto> example_zh_index, en_idx \<mapsto> example_en_index] []))) [] =
     (True,
      fst (snd (run_translate example_world 1 (ascii ''a'') (ascii ''me'') False
        [zh_idx \<mapsto> example_zh_index, en_idx \<mapsto> example_en_index] [])),
      [Print (msg_skip 1 (ascii ''A''))])"
proof -
  let ?fs = "[zh_idx \<mapsto> example_zh_index, en_idx \<mapsto> example_en_index]"
  let ?w2 = "example_world\<lparr>codeforces_page := \<lambda>tr. PageError (ascii ''timeout'')\<rparr>"
  have zf: "py_in (zh_fragment 1 (ascii ''A'')) (read_text example_zh_index)"
    by (simp add: example_index_plain)
       (simp add: py_in_def zh_fragment_def example_zh_index_def str_int_def str_nat.simps
        ascii_def sublist_code)
  have ef: "py_in (en_fragment 1 (ascii ''A'')) (read_text example_en_index)"
    by (simp add: example_index_plain)
       (simp add: py_in_def en_fragment_def example_en_index_def str_int_def str_nat.simps
        ascii_def sublist_code)
  have z: "?fs zh_idx = Some example_zh_index" and e: "?fs en_idx = Some example_en_index"
    using idx_distinct by simp_all
  have none: "?fs (problem_file (ascii ''zh'') 1 (ascii ''A'')) = None"
    by (simp add: problem_file_def zh_idx_def en_idx_def)
  have fe: "fst (fetch_problem example_world 1 (str_upper example_world (ascii ''a''))
              ([] @ [Print (msg_processing 1 (str_upper example_world (ascii ''a'')))]))
            = Some (Problem example_problem)"
    by (simp add: example_world_simps upper_a fetch_example)
  have t: "fst (run_translate example_world 1 (ascii ''a'') (ascii ''me'') False ?fs [])"
    using none fe by (intro run_translate_goes_on) (simp_all add: example_world_simps upper_a)
  have u: "str_upper ?w2 = str_upper example_world"
    by (simp add: example_world_def)
  note th = rerun_changes_nothing [where w = example_world and w' = "?w2" and contest_id = 1
      and index = "ascii ''a''" and author = "ascii ''me''" and author' = "ascii ''you''"
      and force = False and fs = "?fs" and tr = "[]" and tr' = "[]"
      and content = example_zh_index and en_content = example_en_index
      and problem_index = "ascii ''A''" and en_title = "ascii ''Sum''" and zh_title = "ascii ''He''"
      and rating = "ascii ''800''" and tags_en = "[ascii ''math'']" and tags_zh = "[25968, 23398]",
      unfolded Let_def]
  from th z zf have c1: "update_index 1 (ascii ''A'') (ascii ''Sum'') (ascii ''He'') (ascii ''800'')
      [ascii ''math''] [25968, 23398] ?fs = ?fs"
    by blast
  from th e ef have c2: "update_index 1 (ascii ''A'') (ascii ''Sum'') (ascii ''He'') (ascii ''800'')
      [ascii ''math''] [25968, 23398] ?fs en_idx = Some example_en_index"
    by blast
  from th t u have c3: "run_translate ?w2 1 (ascii ''a'') (ascii ''you'') False
     (fst (snd (run_translate example_world 1 (ascii ''a'') (ascii ''me'') False ?fs []))) [] =
     (True, fst (snd (run_translate example_world 1 (ascii ''a'') (ascii ''me'') False ?fs [])),
      [] @ [Print (msg_skip 1 (str_upper example_world (ascii ''a'')))])"
    by blast
  have c3': "run_translate ?w2 1 (ascii ''a'') (ascii ''you'') False
     (fst (snd (run_translate example_world 1 (ascii ''a'') (ascii ''me'') False ?fs []))) [] =
     (True, fst (snd (run_translate example_world 1 (ascii ''a'') (ascii ''me'') False ?fs [])),
      [Print (msg_skip 1 (ascii ''A''))])"
    using c3 by (simp add: example_world_simps upper_a)
  show ?thesis
    by (intro conjI zf c1 ef c2 t c3')
qed

theorem rerun_changes_nothing_counterexample:
  "[zh_idx \<mapsto> example_fresh_index, en_idx \<mapsto> example_fresh_index]
     (problem_file (ascii ''zh'') 1 (ascii ''A'')) = None \<and>
   run_translate example_flaky_world 1 (ascii ''a'') (ascii ''me'') False
     [zh_idx \<mapsto> example_fresh_index, en_idx \<mapsto> example_fresh_index] [] =
     (False, [zh_idx \<mapsto> example_fresh_index, en_idx \<mapsto> example_fresh_index],
      [Print (msg_processing 1 (ascii ''A'')), PageGet 1 (ascii ''A''),
       PrintErr ([25235, 21462, 22833, 36133] @ ascii '': '' @ ascii ''timeout''),
       Print msg_fetch_failed]) \<and>
   fst (run_translate example_flaky_world 1 (ascii ''a'') (ascii ''me'') False
     [zh_idx \<mapsto> example_fresh_index, en_idx \<mapsto> example_fresh_index]
     [Print (msg_processing 1 (ascii ''A'')), PageGet 1 (ascii ''A''),
      PrintErr ([25235, 21462, 22833, 36133] @ ascii '': '' @ ascii ''timeout''),
      Print msg_fetch_failed]) \<and>
   fst (snd (run_translate example_flaky_world 1 (ascii ''a'') (ascii ''me'') False
     [zh_idx \<mapsto> example_fresh_index, en_idx \<mapsto> example_fresh_index]
     [Print (msg_processing 1 (ascii ''A'')), PageGet 1 (ascii ''A''),
      PrintErr ([25235, 21462, 22833, 36133] @ ascii '': '' @ ascii ''timeout''),
      Print msg_fetch_failed])) =
     [zh_idx \<mapsto>
        ascii ''# Index'' @ [10] @ ascii ''## 1'' @ [10, 10] @
        ascii ''|A [800]|'' @ [10] @ ascii ''|:-:|'' @ [10] @
        ascii ''|[Example Title '' @ [92] @ ascii ''| Example Title](/problem/1/A)'' @
        [65288, 25968, 23398, 65289] @ ascii ''|'' @ [10, 10],
      en_idx \<mapsto>
        ascii ''# Index'' @ [10] @ ascii ''## 1'' @ [10, 10] @
        ascii ''|A [800]|'' @ [10] @ ascii ''|:-:|'' @ [10] @
        ascii ''|[Example Title](/en/problem/1/A) (math)|'' @ [10, 10],
      problem_file (ascii ''zh'') 1 (ascii ''A'') \<mapsto>
        build_zh_md example_problem example_translated 1 (ascii ''A'') (ascii ''me''),
      problem_file (ascii ''en'') 1 (ascii ''A'') \<mapsto>
        build_en_md example_problem 1 (ascii ''A'')]"
proof -
  let ?w = example_flaky_world
  let ?fs = "[zh_idx \<mapsto> example_fresh_index, en_idx \<mapsto> example_fresh_index]"
  let ?tr1 = "[Print (msg_processing 1 (ascii ''A'')), PageGet 1 (ascii ''A''),
      PrintErr ([25235, 21462, 22833, 36133] @ ascii '': '' @ ascii ''timeout''),
      Print msg_fetch_failed]"
  let ?zf = "problem_file (ascii ''zh'') 1 (ascii ''A'')"
  let ?ef = "problem_file (ascii ''en'') 1 (ascii ''A'')"
  have up: "str_upper ?w (ascii ''a'') = ascii ''A''"
    by (simp add: example_flaky_world_simps upper_a)
  have none: "?fs ?zf = None"
    by (simp add: problem_file_not_index)
  have first: "run_translate ?w 1 (ascii ''a'') (ascii ''me'') False ?fs [] = (False, ?fs, ?tr1)"
    using run_translate_fetch_error [where w = "?w" and index = "ascii ''a''" and contest_id = 1
        and fs = "?fs" and tr = "[]" and force = False and e = "ascii ''timeout''"
        and author = "ascii ''me''", unfolded up] none
    by (simp add: example_flaky_world_simps(3))
  have parse: "parse_problem_html ?w (example_page (ascii ''A. Example Title'')) =
      Inr (Problem example_problem)"
    by (simp add: parse_html_world [of ?w example_world] example_flaky_world_simps parse_example)
  have f: "fetch_problem ?w 1 (str_upper ?w (ascii ''a''))
             (?tr1 @ [Print (msg_processing 1 (str_upper ?w (ascii ''a'')))]) =
           (Some (Problem example_problem),
            ?tr1 @ [Print (msg_processing 1 (ascii ''A'')), PageGet 1 (ascii ''A'')])"
    unfolding up by (simp add: fetch_problem_def Let_def example_flaky_world_simps(3) parse)
  have m: "get_problem_meta ?w 1 (str_upper ?w (ascii ''a''))
             (?tr1 @ [Print (msg_processing 1 (ascii ''A'')), PageGet 1 (ascii ''A'')]) =
           (Meta (Some 800) [ascii ''math''],
            ?tr1 @ [Print (msg_processing 1 (ascii ''A'')), PageGet 1 (ascii ''A''), StandingsGet 1])"
    unfolding up by (simp add: get_problem_meta_def Let_def example_flaky_world_simps(4))
  have dn: "fst (translate_problem ?w example_problem
              ((?tr1 @ [Print (msg_processing 1 (ascii ''A'')), PageGet 1 (ascii ''A''),
                 StandingsGet 1]) @ [Sleep 1000])) = example_translated"
    by (subst translate_problem_down)
       (simp_all add: example_flaky_world_simps example_problem_def example_translated_def)
  then obtain tr5 where t: "translate_problem ?w example_problem
              ((?tr1 @ [Print (msg_processing 1 (ascii ''A'')), PageGet 1 (ascii ''A''),
                 StandingsGet 1]) @ [Sleep 1000]) = (example_translated, tr5)"
    by (metis prod.collapse)
  let ?fs2 = "?fs(?zf \<mapsto> build_zh_md example_problem example_translated 1 (ascii ''A'') (ascii ''me''),
                  ?ef \<mapsto> build_en_md example_problem 1 (ascii ''A''))"
  have tags: "tags_to_chinese ?w [ascii ''math''] = [25968, 23398]"
    by (simp add: tags_to_chinese_def example_flaky_world_simps ascii_lower_def TAG_MAP_def ascii_def)
  have second: "run_translate ?w 1 (ascii ''a'') (ascii ''me'') False ?fs ?tr1 =
      (True,
       update_index 1 (ascii ''A'') (ascii ''Example Title'') (ascii ''Example Title'')
         (ascii ''800'') [ascii ''math''] [25968, 23398] ?fs2,
       tr5 @ [Print (msg_saved 1 (ascii ''A''))])"
    using run_translate_result [where w = "?w" and index = "ascii ''a''" and contest_id = 1
        and fs = "?fs" and tr = "?tr1" and force = False and author = "ascii ''me''",
        OF _ f m t] none
    by (simp add: up tags example_problem_def example_translated_def)
       (simp add: str_int_def str_nat.simps ascii_def)
  have z2: "?fs2 zh_idx = Some example_fresh_index" and e2: "?fs2 en_idx = Some example_fresh_index"
    using idx_distinct problem_file_not_index [of "ascii ''zh''" 1 "ascii ''A''"]
      problem_file_not_index [of "ascii ''en''" 1 "ascii ''A''"]
    by (simp_all add: fun_upd_def)
  have nz: "\<not> py_in (zh_fragment 1 (ascii ''A'')) (read_text example_fresh_index)"
    by (simp add: example_index_plain)
       (simp add: py_in_def zh_fragment_def example_fresh_index_def str_int_def str_nat.simps
        ascii_def sublist_code)
  have ne: "\<not> py_in (en_fragment 1 (ascii ''A'')) (read_text example_fresh_index)"
    by (simp add: example_index_plain)
       (simp add: py_in_def en_fragment_def example_fresh_index_def str_int_def str_nat.simps
        ascii_def sublist_code)
  have nh: "\<not> py_in (ascii ''## '' @ str_int 1) example_fresh_index"
    by (simp add: py_in_def example_fresh_index_def str_int_def str_nat.simps ascii_def sublist_code)
  have rs: "rstrip example_fresh_index = ascii ''# Index''"
    by (simp add: rstrip_def example_fresh_index_def isspace_def ascii_def)
  let ?u = "update_index 1 (ascii ''A'') (ascii ''Example Title'') (ascii ''Example Title'')
         (ascii ''800'') [ascii ''math''] [25968, 23398] ?fs2"
  have uz: "?u zh_idx = Some (ascii ''# Index'' @ [10] @ ascii ''## 1'' @ [10, 10] @
        ascii ''|A [800]|'' @ [10] @ ascii ''|:-:|'' @ [10] @
        ascii ''|[Example Title '' @ [92] @ ascii ''| Example Title](/problem/1/A)'' @
        [65288, 25968, 23398, 65289] @ ascii ''|'' @ [10, 10])"
    using update_index_zh [where fs = "?fs2" and c = 1 and i = "ascii ''A''", OF z2 nz]
    by (simp add: example_index_plain add_entry_def nh rs)
       (simp add: zh_entry_def zh_fragment_def str_int_def str_nat.simps ascii_def)
  have ue: "?u en_idx = Some (ascii ''# Index'' @ [10] @ ascii ''## 1'' @ [10, 10] @
        ascii ''|A [800]|'' @ [10] @ ascii ''|:-:|'' @ [10] @
        ascii ''|[Example Title](/en/problem/1/A) (math)|'' @ [10, 10])"
    using update_index_en [where fs = "?fs2" and c = 1 and i = "ascii ''A''", OF z2 nz e2 ne]
    by (simp add: example_index_plain add_entry_def nh rs)
       (simp add: en_entry_def en_fragment_def str_int_def str_nat.simps ascii_def)
  have uo: "\<And>p. p \<noteq> zh_idx \<Longrightarrow> p \<noteq> en_idx \<Longrightarrow> ?u p = ?fs2 p"
    by (rule update_index_other)
  have files: "?u =
     [zh_idx \<mapsto>
        ascii ''# Index'' @ [10] @ ascii ''## 1'' @ [10, 10] @
        ascii ''|A [800]|'' @ [10] @ ascii ''|:-:|'' @ [10] @
        ascii ''|[Example Title '' @ [92] @ ascii ''| Example Title](/problem/1/A)'' @
        [65288, 25968, 23398, 65289] @ ascii ''|'' @ [10, 10],
      en_idx \<mapsto>
        ascii ''# Index'' @ [10] @ ascii ''## 1'' @ [10, 10] @
        ascii ''|A [800]|'' @ [10] @ ascii ''|:-:|'' @ [10] @
        ascii ''|[Example Title](/en/problem/1/A) (math)|'' @ [10, 10],
      ?zf \<mapsto> build_zh_md example_problem example_translated 1 (ascii ''A'') (ascii ''me''),
      ?ef \<mapsto> build_en_md example_problem 1 (ascii ''A'')]"
  proof (rule ext)
    fix p
    show "?u p =
     [zh_idx \<mapsto>
        ascii ''# Index'' @ [10] @ ascii ''## 1'' @ [10, 10] @
        ascii ''|A [800]|'' @ [10] @ ascii ''|:-:|'' @ [10] @
        ascii ''|[Example Title '' @ [92] @ ascii ''| Example Title](/problem/1/A)'' @
        [65288, 25968, 23398, 65289] @ ascii ''|'' @ [10, 10],
      en_idx \<mapsto>
        ascii ''# Index'' @ [10] @ ascii ''## 1'' @ [10, 10] @
        ascii ''|A [800]|'' @ [10] @ ascii ''|:-:|'' @ [10] @
        ascii ''|[Example Title](/en/problem/1/A) (math)|'' @ [10, 10],
      ?zf \<mapsto> build_zh_md example_problem example_translated 1 (ascii ''A'') (ascii ''me''),
      ?ef \<mapsto> build_en_md example_problem 1 (ascii ''A'')] p"
    proof (cases "p = zh_idx \<or> p = en_idx")
      case True
      then show ?thesis
        using uz ue idx_distinct problem_file_not_index [of "ascii ''zh''" 1 "ascii ''A''"]
          problem_file_not_index [of "ascii ''en''" 1 "ascii ''A''"]
        by (auto simp: fun_upd_def)
    next
      case False
      then show ?thesis
        using uo [of p] by (auto simp: fun_upd_def)
    qed
  qed
  have s1: "fst (run_translate ?w 1 (ascii ''a'') (ascii ''me'') False ?fs ?tr1)"
    by (simp only: second fst_conv)
  have s2: "fst (snd (run_translate ?w 1 (ascii ''a'') (ascii ''me'') False ?fs ?tr1)) =
     [zh_idx \<mapsto>
        ascii ''# Index'' @ [10] @ ascii ''## 1'' @ [10, 10] @
        ascii ''|A [800]|'' @ [10] @ ascii ''|:-:|'' @ [10] @
        ascii ''|[Example Title '' @ [92] @ ascii ''| Example Title](/problem/1/A)'' @
        [65288, 25968, 23398, 65289] @ ascii ''|'' @ [10, 10],
      en_idx \<mapsto>
        ascii ''# Index'' @ [10] @ ascii ''## 1'' @ [10, 10] @
        ascii ''|A [800]|'' @ [10] @ ascii ''|:-:|'' @ [10] @
        ascii ''|[Example Title](/en/problem/1/A) (math)|'' @ [10, 10],
      ?zf \<mapsto> build_zh_md example_problem example_translated 1 (ascii ''A'') (ascii ''me''),
      ?ef \<mapsto> build_en_md example_problem 1 (ascii ''A'')]"
    by (simp only: second fst_conv snd_conv files)
  show ?thesis
    by (intro conjI none first s1 s2)
qed

section \<open>Facts about the extraction\<close>

lemma examples_loop_map:
  "examples_loop acc ps =
     acc @ map (\<lambda>(inp, out). \<lparr>input = pre_text inp, output = pre_text out\<rparr>) ps"
  by (induction acc ps rule: examples_loop.induct) simp_all

lemma strip_letter_upper:
  "65 \<le> L \<Longrightarrow> L \<le> 90 \<Longrightarrow> strip_letter (L # 46 # rest) = lstrip rest"
  by (simp add: lstrip_def)

lemma strip_letter_other:
  assumes "\<And>L rest. 65 \<le> L \<Longrightarrow> L \<le> 90 \<Longrightarrow> h \<noteq> L # 46 # rest"
  shows "strip_letter h = h"
proof (cases h rule: strip_letter.cases)
  case (1 c d rest)
  with assms [of c rest] show ?thesis by auto
qed simp_all

lemma parse_title:
  assumes ps: "find_first (is_div (ascii ''problem-statement'')) (children soup) = Some ps"
    and hd: "find_first (is_div (ascii ''header'')) (children ps) = Some header"
    and h: "get_text_stripped (find_first (is_div (ascii ''title'')) (children header)) = h"
  shows "\<exists>p. parse_problem_html w soup = Inr (Problem p) \<and> full_title p = h \<and>
             title p = (if h \<noteq> [] then strip_letter h else [])"
  using assms by (simp add: parse_problem_html_def Let_def split: prod.splits)

lemma parse_example_titled:
  "parse_problem_html example_world (example_page h) =
     Inr (Problem (example_problem
       \<lparr>title := (if get_text_stripped (Some (Elem (ascii ''div'') [ascii ''title''] [Text h])) \<noteq> []
                  then strip_letter
                    (get_text_stripped (Some (Elem (ascii ''div'') [ascii ''title''] [Text h])))
                  else []),
        full_title := get_text_stripped (Some (Elem (ascii ''div'') [ascii ''title''] [Text h]))\<rparr>))"
  by (simp add: parse_problem_html_def example_page_def example_statement_def example_header_def
      example_samples_def example_sample_test_def example_world_def example_problem_def
      section_of_def extract_section_def parse_examples_def pre_text_def get_text_def
      get_text_stripped_def string_containers_def strip_def lstrip_def rstrip_def isspace_def
      ascii_def Let_def)

text \<open>
  C8 (as amended). \<open>parse_examples\<close> takes the input blocks and the output blocks below the
  first sample-test block of the container, in document order. With \<open>n\<close> input blocks and
  \<open>m\<close> output blocks below that block it returns \<open>min n m\<close> pairs, and the pair at position
  \<open>i\<close> has the text of the input block and of the output block at position \<open>i\<close> (the empty
  string for a block without \<open>pre\<close>). It returns a list for every container; without a
  sample-test block the list is empty. Blocks of the container that are not below its
  first sample-test block are not counted.
\<close>

theorem parse_examples_pairs:
  "(find_first (is_div (ascii ''sample-test'')) (children sample_tests) = None \<longrightarrow>
      parse_examples sample_tests = []) \<and>
   (find_first (is_div (ascii ''sample-test'')) (children sample_tests) = Some sample_test \<longrightarrow>
      (let inputs = find_all (is_div (ascii ''input'')) (children sample_test);
           outputs = find_all (is_div (ascii ''output'')) (children sample_test)
       in length (parse_examples sample_tests) = min (length inputs) (length outputs) \<and>
          (\<forall>i < min (length inputs) (length outputs).
             parse_examples sample_tests ! i =
               \<lparr>input = pre_text (inputs ! i), output = pre_text (outputs ! i)\<rparr>)))"
  by (simp add: parse_examples_def examples_loop_map Let_def)

theorem parse_examples_pairs_witness:
  "find_first (is_div (ascii ''sample-test'')) (children example_samples)
     = Some example_sample_test \<and>
   length (find_all (is_div (ascii ''input'')) (children example_sample_test)) = 3 \<and>
   length (find_all (is_div (ascii ''output'')) (children example_sample_test)) = 2 \<and>
   length (parse_examples example_samples) = 2 \<and>
   parse_examples example_samples ! 0 = \<lparr>input = ascii ''1 2'' @ [10], output = ascii ''3'' @ [10]\<rparr> \<and>
   parse_examples example_samples ! 1 = \<lparr>input = ascii ''5 7'' @ [10], output = []\<rparr> \<and>
   find_first (is_div (ascii ''sample-test''))
     (children (Elem (ascii ''div'') [ascii ''sample-tests'']
        [Elem (ascii ''div'') [ascii ''input''] [Elem (ascii ''pre'') [] [Text (ascii ''1'')]]]))
     = None \<and>
   parse_examples (Elem (ascii ''div'') [ascii ''sample-tests'']
        [Elem (ascii ''div'') [ascii ''input''] [Elem (ascii ''pre'') [] [Text (ascii ''1'')]]]) = []"
proof -
  let ?bare = "Elem (ascii ''div'') [ascii ''sample-tests'']
        [Elem (ascii ''div'') [ascii ''input''] [Elem (ascii ''pre'') [] [Text (ascii ''1'')]]]"
  have f: "find_first (is_div (ascii ''sample-test'')) (children example_samples)
     = Some example_sample_test"
    by (simp add: example_samples_def example_sample_test_def ascii_def)
  have n: "find_first (is_div (ascii ''sample-test'')) (children ?bare) = None"
    by (simp add: ascii_def)
  have i: "find_all (is_div (ascii ''input'')) (children example_sample_test) =
      [Elem (ascii ''div'') [ascii ''input'']
          [Elem (ascii ''div'') [ascii ''title''] [Text (ascii ''Input'')],
           Elem (ascii ''pre'') [] [Text (ascii ''1 2'' @ [10])]],
       Elem (ascii ''div'') [ascii ''input'']
          [Elem (ascii ''div'') [ascii ''title''] [Text (ascii ''Input'')],
           Elem (ascii ''pre'') [] [Text (ascii ''5 7'' @ [10])]],
       Elem (ascii ''div'') [ascii ''input'']
          [Elem (ascii ''div'') [ascii ''title''] [Text (ascii ''Input'')]]]"
    by (simp add: example_sample_test_def ascii_def)
  have o: "find_all (is_div (ascii ''output'')) (children example_sample_test) =
      [Elem (ascii ''div'') [ascii ''output'']
          [Elem (ascii ''div'') [ascii ''title''] [Text (ascii ''Output'')],
           Elem (ascii ''pre'') [] [Text (ascii ''3'' @ [10])]],
       Elem (ascii ''div'') [ascii ''output'']
          [Elem (ascii ''div'') [ascii ''title''] [Text (ascii ''Output'')]]]"
    by (simp add: example_sample_test_def ascii_def)
  note a = parse_examples_pairs [where sample_tests = example_samples
      and sample_test = example_sample_test, unfolded Let_def i o, THEN conjunct2, rule_format, OF f]
  note b = parse_examples_pairs [where sample_tests = "?bare", THEN conjunct1, rule_format, OF n]
  have l: "length (parse_examples example_samples) = 2"
    using a by simp
  have e0: "parse_examples example_samples ! 0 =
      \<lparr>input = ascii ''1 2'' @ [10], output = ascii ''3'' @ [10]\<rparr>"
    using a [THEN conjunct2, rule_format, of 0]
    by (simp add: pre_text_def get_text_def string_containers_def ascii_def)
  have e1: "parse_examples example_samples ! 1 = \<lparr>input = ascii ''5 7'' @ [10], output = []\<rparr>"
    using a [THEN conjunct2, rule_format, of 1]
    by (simp add: pre_text_def get_text_def string_containers_def ascii_def)
  have li: "length (find_all (is_div (ascii ''input'')) (children example_sample_test)) = 3"
    by (simp add: i)
  have lo: "length (find_all (is_div (ascii ''output'')) (children example_sample_test)) = 2"
    by (simp add: o)
  show ?thesis
    by (intro conjI f li lo l e0 e1 n b)
qed

theorem parse_examples_pairs_counterexample:
  "length (find_all (is_div (ascii ''input'')) (children example_two_blocks)) = 2 \<and>
   length (find_all (is_div (ascii ''output'')) (children example_two_blocks)) = 2 \<and>
   parse_examples example_two_blocks = [\<lparr>input = ascii ''1'', output = ascii ''2''\<rparr>] \<and>
   length (find_all (is_div (ascii ''input'')) (children example_bare_blocks)) = 1 \<and>
   length (find_all (is_div (ascii ''output'')) (children example_bare_blocks)) = 1 \<and>
   parse_examples example_bare_blocks = []"
proof -
  have a: "length (find_all (is_div (ascii ''input'')) (children example_two_blocks)) = 2"
    "length (find_all (is_div (ascii ''output'')) (children example_two_blocks)) = 2"
    by (simp_all add: example_two_blocks_def ascii_def)
  have b: "parse_examples example_two_blocks = [\<lparr>input = ascii ''1'', output = ascii ''2''\<rparr>]"
    by (simp add: parse_examples_def example_two_blocks_def pre_text_def get_text_def
        string_containers_def ascii_def)
  have c: "length (find_all (is_div (ascii ''input'')) (children example_bare_blocks)) = 1"
    "length (find_all (is_div (ascii ''output'')) (children example_bare_blocks)) = 1"
    by (simp_all add: example_bare_blocks_def ascii_def)
  have d: "parse_examples example_bare_blocks = []"
    by (simp add: parse_examples_def example_bare_blocks_def ascii_def)
  show ?thesis
    by (intro conjI a b c d)
qed

text \<open>
  C7 (as amended). The un-stripped header text is kept as \<open>full_title\<close>. When the header text
  starts with one upper-case letter \<open>A\<close> to \<open>Z\<close> (65 to 90) and a full stop (46), the title is
  the rest of the header text without its leading whitespace, so \<open>A. Example Title\<close> gives
  \<open>Example Title\<close>; every other header text is the title as it is. A lower-case letter in
  front of the full stop is not stripped.
\<close>

theorem title_prefix:
  assumes "find_first (is_div (ascii ''problem-statement'')) (children soup) = Some ps"
    and "find_first (is_div (ascii ''header'')) (children ps) = Some header"
    and "get_text_stripped (find_first (is_div (ascii ''title'')) (children header)) = h"
  shows "\<exists>p. parse_problem_html w soup = Inr (Problem p) \<and> full_title p = h \<and>
           (\<forall>L rest. 65 \<le> L \<and> L \<le> 90 \<and> h = L # 46 # rest \<longrightarrow> title p = lstrip rest) \<and>
           ((\<forall>L rest. 65 \<le> L \<and> L \<le> 90 \<longrightarrow> h \<noteq> L # 46 # rest) \<longrightarrow> title p = h)"
proof -
  from parse_title [OF assms] obtain p where
    p: "parse_problem_html w soup = Inr (Problem p)" and f: "full_title p = h"
    and t: "title p = (if h \<noteq> [] then strip_letter h else [])"
    by blast
  have a: "\<forall>L rest. 65 \<le> L \<and> L \<le> 90 \<and> h = L # 46 # rest \<longrightarrow> title p = lstrip rest"
    using t by (auto simp: lstrip_def)
  have b: "(\<forall>L rest. 65 \<le> L \<and> L \<le> 90 \<longrightarrow> h \<noteq> L # 46 # rest) \<longrightarrow> title p = h"
  proof
    assume "\<forall>L rest. 65 \<le> L \<and> L \<le> 90 \<longrightarrow> h \<noteq> L # 46 # rest"
    then have "strip_letter h = h"
      by (intro strip_letter_other) blast
    with t show "title p = h" by simp
  qed
  from p f a b show ?thesis by blast
qed

theorem title_prefix_witness:
  "find_first (is_div (ascii ''problem-statement'')) (children (example_page (ascii ''A. Example Title'')))
     = Some (example_statement (ascii ''A. Example Title'')) \<and>
   find_first (is_div (ascii ''header'')) (children (example_statement (ascii ''A. Example Title'')))
     = Some (example_header (ascii ''A. Example Title'')) \<and>
   get_text_stripped (find_first (is_div (ascii ''title''))
     (children (example_header (ascii ''A. Example Title'')))) = ascii ''A. Example Title'' \<and>
   (\<exists>p. parse_problem_html example_world (example_page (ascii ''A. Example Title'')) = Inr (Problem p) \<and>
        full_title p = ascii ''A. Example Title'' \<and> title p = ascii ''Example Title'') \<and>
   (\<exists>p. parse_problem_html example_world (example_page (ascii ''Example Title'')) = Inr (Problem p) \<and>
        full_title p = ascii ''Example Title'' \<and> title p = ascii ''Example Title'')"
proof -
  have s: "\<And>h. find_first (is_div (ascii ''problem-statement'')) (children (example_page h))
     = Some (example_statement h)"
    by (simp add: example_page_def example_statement_def ascii_def)
  have hd: "\<And>h. find_first (is_div (ascii ''header'')) (children (example_statement h))
     = Some (example_header h)"
    by (simp add: example_statement_def example_header_def ascii_def)
  have t1: "get_text_stripped (find_first (is_div (ascii ''title''))
     (children (example_header (ascii ''A. Example Title'')))) = ascii ''A. Example Title''"
    by (simp add: example_header_def get_text_stripped_def string_containers_def strip_def
        lstrip_def rstrip_def isspace_def ascii_def)
  have t2: "get_text_stripped (find_first (is_div (ascii ''title''))
     (children (example_header (ascii ''Example Title'')))) = ascii ''Example Title''"
    by (simp add: example_header_def get_text_stripped_def string_containers_def strip_def
        lstrip_def rstrip_def isspace_def ascii_def)
  from title_prefix [OF s hd t1, of example_world] obtain p where
    p: "parse_problem_html example_world (example_page (ascii ''A. Example Title'')) = Inr (Problem p)"
    and f: "full_title p = ascii ''A. Example Title''"
    and a: "\<forall>L rest. 65 \<le> L \<and> L \<le> 90 \<and> ascii ''A. Example Title'' = L # 46 # rest \<longrightarrow>
              title p = lstrip rest"
    by blast
  have "ascii ''A. Example Title'' = 65 # 46 # ascii '' Example Title''"
    by (simp add: ascii_def)
  with a [rule_format, of 65 "ascii '' Example Title''"]
  have "title p = lstrip (ascii '' Example Title'')"
    by simp
  then have tp: "title p = ascii ''Example Title''"
    by (simp add: lstrip_def isspace_def ascii_def)
  from title_prefix [OF s hd t2, of example_world] obtain q where
    q: "parse_problem_html example_world (example_page (ascii ''Example Title'')) = Inr (Problem q)"
    and g: "full_title q = ascii ''Example Title''"
    and b: "(\<forall>L rest. 65 \<le> L \<and> L \<le> 90 \<longrightarrow> ascii ''Example Title'' \<noteq> L # 46 # rest) \<longrightarrow>
              title q = ascii ''Example Title''"
    by blast
  have "\<forall>L rest. 65 \<le> L \<and> L \<le> 90 \<longrightarrow> ascii ''Example Title'' \<noteq> L # 46 # rest"
    by (simp add: ascii_def)
  with b have tq: "title q = ascii ''Example Title''"
    by blast
  from p f tp have first: "\<exists>p. parse_problem_html example_world
        (example_page (ascii ''A. Example Title'')) = Inr (Problem p) \<and>
        full_title p = ascii ''A. Example Title'' \<and> title p = ascii ''Example Title''"
    by blast
  from q g tq have second: "\<exists>p. parse_problem_html example_world
        (example_page (ascii ''Example Title'')) = Inr (Problem p) \<and>
        full_title p = ascii ''Example Title'' \<and> title p = ascii ''Example Title''"
    by blast
  show ?thesis
    by (intro conjI s hd t1 first second)
qed

theorem title_prefix_counterexample:
  "parse_problem_html example_world (example_page (ascii ''a. Example Title'')) =
     Inr (Problem (example_problem
       \<lparr>title := ascii ''a. Example Title'', full_title := ascii ''a. Example Title''\<rparr>)) \<and>
   ascii ''a. Example Title'' \<noteq> ascii ''Example Title''"
  by (simp add: parse_example_titled get_text_stripped_def string_containers_def strip_def
      lstrip_def rstrip_def isspace_def ascii_def)

section \<open>Facts about the rendering\<close>

lemma zh_block:
  "i < length exs \<Longrightarrow>
   take 13 (drop (13 * i) (zh_example_lines n k exs)) =
     [[], ascii ''### '' @ [36755, 20837] @ (if n > 1 then 32 # str_nat (k + i) else []),
      [], ascii ''```'', strip (input (exs ! i)), ascii ''```'', [],
      ascii ''### '' @ [36755, 20986],
      [], ascii ''```'', strip (output (exs ! i)), ascii ''```'', []]"
proof (induction exs arbitrary: i k)
  case Nil
  then show ?case by simp
next
  case (Cons ex exs)
  show ?case
  proof (cases i)
    case 0
    then show ?thesis by (simp add: Let_def)
  next
    case (Suc j)
    with Cons.prems have j: "j < length exs" by simp
    have "drop 13 (zh_example_lines n k (ex # exs)) = zh_example_lines n (k + 1) exs"
      by (simp add: Let_def)
    moreover have e: "13 * i = 13 * j + 13" using Suc by simp
    have "drop (13 * i) (zh_example_lines n k (ex # exs))
                 = drop (13 * j) (drop 13 (zh_example_lines n k (ex # exs)))"
      by (simp only: drop_drop e)
    ultimately have "drop (13 * i) (zh_example_lines n k (ex # exs))
                 = drop (13 * j) (zh_example_lines n (k + 1) exs)"
      by simp
    with Cons.IH [OF j, of "k + 1"] Suc show ?thesis by simp
  qed
qed

lemma en_block:
  "i < length exs \<Longrightarrow>
   take 13 (drop (13 * i) (en_example_lines k exs)) =
     [[], ascii ''### Input'',
      [], ascii ''```'', strip (input (exs ! i)), ascii ''```'', [],
      ascii ''### Output'',
      [], ascii ''```'', strip (output (exs ! i)), ascii ''```'', []]"
proof (induction exs arbitrary: i k)
  case Nil
  then show ?case by simp
next
  case (Cons ex exs)
  show ?case
  proof (cases i)
    case 0
    then show ?thesis by simp
  next
    case (Suc j)
    with Cons.prems have j: "j < length exs" by simp
    have "drop 13 (en_example_lines k (ex # exs)) = en_example_lines (k + 1) exs"
      by simp
    moreover have e: "13 * i = 13 * j + 13" using Suc by simp
    have "drop (13 * i) (en_example_lines k (ex # exs))
                 = drop (13 * j) (drop 13 (en_example_lines k (ex # exs)))"
      by (simp only: drop_drop e)
    ultimately have "drop (13 * i) (en_example_lines k (ex # exs))
                 = drop (13 * j) (en_example_lines (k + 1) exs)"
      by simp
    with Cons.IH [OF j, of "k + 1"] Suc show ?thesis by simp
  qed
qed

lemma zh_lines_length: "length (zh_example_lines n k exs) = 13 * length exs"
  by (induction exs arbitrary: k) (simp_all add: Let_def)

lemma en_lines_length: "length (en_example_lines k exs) = 13 * length exs"
  by (induction exs arbitrary: k) simp_all

lemma join_append:
  "X \<noteq> [] \<Longrightarrow> L \<noteq> [] \<Longrightarrow> join sep (X @ L) = join sep X @ sep @ join sep L"
proof (induction sep X rule: join.induct)
  case (2 sep x)
  then show ?case by (cases L) simp_all
qed simp_all

lemma join_starts:
  "x \<noteq> [] \<Longrightarrow> \<exists>rest. join sep (x # xs) = hd x # rest"
  by (cases xs; cases x) simp_all

lemma rstrip_keeps:
  assumes "A \<noteq> []" "\<not> isspace (last A)"
  shows "rstrip (A @ R) = A @ rstrip R"
proof -
  have h: "dropWhile isspace (rev A) = rev A"
    using assms by (cases A rule: rev_cases) simp_all
  show ?thesis
    by (simp add: rstrip_def dropWhile_append h)
qed

lemma rstrip_line_feed: "\<exists>Z'. rstrip (10 # Z) @ [10] = 10 # Z'"
proof -
  have "suffix (dropWhile isspace (rev (10 # Z))) (rev (10 # Z))"
    by (rule suffix_dropWhile)
  then have "prefix (rstrip (10 # Z)) (10 # Z)"
    unfolding rstrip_def by (simp only: suffix_to_prefix rev_rev_ident)
  then obtain r where "10 # Z = rstrip (10 # Z) @ r"
    by (auto simp: prefix_def)
  then show ?thesis
    by (cases "rstrip (10 # Z)") auto
qed

text \<open>
  The thirteen lines of one example, wherever they stand in the lines of a document that
  starts with a character that is not whitespace, are part of the text of the document:
  each heading on a line of its own.
\<close>

lemma block_in_document:
  assumes lines: "lines = (x # X) @ [[], h, [], f, a, f, [], h2, [], f, b, f, []] @ Y"
    and x: "x \<noteq> []" "\<not> isspace (hd x)"
    and f: "f \<noteq> []" "\<not> isspace (last f)"
  shows "py_in ([10] @ h @ [10, 10] @ f @ [10] @ a @ [10] @ f @ [10, 10] @
                h2 @ [10, 10] @ f @ [10] @ b @ [10] @ f @ [10])
               (strip (join [10] lines) @ [10])"
proof -
  let ?E = "[10] @ h @ [10, 10] @ f @ [10] @ a @ [10] @ f @ [10, 10] @
            h2 @ [10, 10] @ f @ [10] @ b @ [10] @ f"
  let ?W = "join [10] (x # X) @ [10]"
  have blk: "join [10] ([[], h, [], f, a, f, [], h2, [], f, b, f, []] @ Y) =
      ?E @ 10 # (if Y = [] then [] else [10] @ join [10] Y)"
  proof (cases "Y = []")
    case True
    then show ?thesis by simp
  next
    case False
    then have "join [10] ([[], h, [], f, a, f, [], h2, [], f, b, f, []] @ Y) =
        join [10] [[], h, [], f, a, f, [], h2, [], f, b, f, []] @ [10] @ join [10] Y"
      by (intro join_append) simp_all
    with False show ?thesis by simp
  qed
  define Z where "Z = (if Y = [] then [] else [10] @ join [10] Y)"
  have "join [10] ((x # X) @ ([[], h, [], f, a, f, [], h2, [], f, b, f, []] @ Y)) =
      join [10] (x # X) @ [10] @ join [10] ([[], h, [], f, a, f, [], h2, [], f, b, f, []] @ Y)"
    by (intro join_append) simp_all
  then have jt: "join [10] lines = (?W @ ?E) @ 10 # Z"
    unfolding lines blk Z_def by simp
  obtain rest where st: "join [10] (x # X) = hd x # rest"
    using join_starts [OF x(1)] by blast
  have ne: "?W @ ?E \<noteq> []" by simp
  have la: "\<not> isspace (last (?W @ ?E))"
    using f by simp
  have r: "rstrip (join [10] lines) = (?W @ ?E) @ rstrip (10 # Z)"
    unfolding jt by (rule rstrip_keeps [OF ne la])
  have l: "lstrip ((?W @ ?E) @ rstrip (10 # Z)) = (?W @ ?E) @ rstrip (10 # Z)"
    using x(2) by (simp add: lstrip_def st)
  obtain Z' where z: "rstrip (10 # Z) @ [10] = 10 # Z'"
    using rstrip_line_feed by blast
  have "strip (join [10] lines) = (?W @ ?E) @ rstrip (10 # Z)"
    by (simp only: strip_def r l)
  then have "strip (join [10] lines) @ [10] = (?W @ ?E) @ (rstrip (10 # Z) @ [10])"
    by simp
  also have "\<dots> = (?W @ ?E) @ 10 # Z'"
    by (simp only: z)
  finally have "strip (join [10] lines) @ [10] = ?W @ (?E @ [10]) @ Z'"
    by simp
  then show ?thesis
    unfolding py_in_def sublist_def
    by (intro exI [of _ ?W] exI [of _ Z']) simp
qed

lemma list_block:
  "xs = take a xs @ take b (drop a xs) @ drop (a + b) xs"
  by (metis append_take_drop_id drop_drop add.commute)

lemma zh_lines_in_document:
  assumes "examples t \<noteq> []"
  shows "\<exists>before after. build_zh_lines t problem_index author =
     (ascii ''---'' # before) @ zh_example_lines (length (examples t)) 1 (examples t) @ after"
proof -
  let ?before = "[ascii ''author: '' @ author, ascii ''---'', [],
      ascii ''# '' @ problem_index @ ascii ''. '' @ title t, [],
      ascii ''## '' @ [39064, 30446, 25551, 36848], [],
      description t, []]
     @ (if input_section t \<noteq> []
        then [ascii ''## '' @ [36755, 20837, 26684, 24335], [], input_section t, []] else [])
     @ (if output_section t \<noteq> []
        then [ascii ''## '' @ [36755, 20986, 26684, 24335], [], output_section t, []] else [])
     @ [ascii ''## '' @ [26679, 20363]]"
  let ?after = "(if note t \<noteq> [] then [ascii ''## '' @ [27880, 24847], [], note t, []] else [])"
  have "build_zh_lines t problem_index author =
     (ascii ''---'' # ?before) @ zh_example_lines (length (examples t)) 1 (examples t) @ ?after"
    using assms by (simp add: build_zh_lines_def)
  then show ?thesis by blast
qed

lemma en_lines_in_document:
  assumes "examples p \<noteq> []"
  shows "\<exists>before after. build_en_lines p problem_index =
     ((ascii ''# '' @ problem_index @ ascii ''. '' @ title p) # before)
       @ en_example_lines 1 (examples p) @ after"
proof -
  let ?before = "[[], description p, []]
     @ (if input_section p \<noteq> []
        then [ascii ''## Input'', [], input_section p, []] else [])
     @ (if output_section p \<noteq> []
        then [ascii ''## Output'', [], output_section p, []] else [])
     @ [ascii ''## Examples'']"
  let ?after = "(if note p \<noteq> [] then [ascii ''## Note'', [], note p, []] else [])"
  have "build_en_lines p problem_index =
      ((ascii ''# '' @ problem_index @ ascii ''. '' @ title p) # ?before)
        @ en_example_lines 1 (examples p) @ ?after"
    using assms by (simp add: build_en_lines_def)
  then show ?thesis by blast
qed

lemma fence_facts: "ascii ''```'' \<noteq> []" "\<not> isspace (last (ascii ''```''))"
  "ascii ''---'' \<noteq> []" "\<not> isspace (hd (ascii ''---''))"
  "ascii ''# '' @ s \<noteq> []" "\<not> isspace (hd (ascii ''# '' @ s))"
  by (simp_all add: ascii_def isspace_def)

lemma zh_example_in_document:
  assumes i: "i < length (examples t)"
  shows "py_in ([10] @ (ascii ''### '' @ [36755, 20837] @
                  (if length (examples t) > 1 then 32 # str_nat (1 + i) else [])) @ [10, 10] @
                ascii ''```'' @ [10] @ strip (input (examples t ! i)) @ [10] @ ascii ''```'' @
                [10, 10] @ (ascii ''### '' @ [36755, 20986]) @ [10, 10] @
                ascii ''```'' @ [10] @ strip (output (examples t ! i)) @ [10] @ ascii ''```'' @ [10])
               (build_zh_md problem t contest_id problem_index author)"
proof -
  let ?L = "zh_example_lines (length (examples t)) 1 (examples t)"
  from i have "examples t \<noteq> []" by auto
  then obtain before after where
    b: "build_zh_lines t problem_index author = (ascii ''---'' # before) @ ?L @ after"
    using zh_lines_in_document by blast
  have "?L = take (13 * i) ?L @ take 13 (drop (13 * i) ?L) @ drop (13 * i + 13) ?L"
    by (rule list_block)
  then have "build_zh_lines t problem_index author =
      (ascii ''---'' # (before @ take (13 * i) ?L)) @ take 13 (drop (13 * i) ?L)
        @ (drop (13 * i + 13) ?L @ after)"
    using b by (metis append_Cons append_assoc)
  then have l: "build_zh_lines t problem_index author =
      (ascii ''---'' # (before @ take (13 * i) ?L)) @
      [[], ascii ''### '' @ [36755, 20837] @
             (if length (examples t) > 1 then 32 # str_nat (1 + i) else []),
       [], ascii ''```'', strip (input (examples t ! i)), ascii ''```'', [],
       ascii ''### '' @ [36755, 20986],
       [], ascii ''```'', strip (output (examples t ! i)), ascii ''```'', []]
        @ (drop (13 * i + 13) ?L @ after)"
    by (simp only: zh_block [OF i])
  show ?thesis
    unfolding build_zh_md_def
    by (rule block_in_document [OF l fence_facts(3,4,1,2)])
qed

lemma en_example_in_document:
  assumes i: "i < length (examples p)"
  shows "py_in ([10] @ ascii ''### Input'' @ [10, 10] @
                ascii ''```'' @ [10] @ strip (input (examples p ! i)) @ [10] @ ascii ''```'' @
                [10, 10] @ ascii ''### Output'' @ [10, 10] @
                ascii ''```'' @ [10] @ strip (output (examples p ! i)) @ [10] @ ascii ''```'' @ [10])
               (build_en_md p contest_id problem_index)"
proof -
  let ?L = "en_example_lines 1 (examples p)"
  from i have "examples p \<noteq> []" by auto
  then obtain before after where
    b: "build_en_lines p problem_index =
          ((ascii ''# '' @ problem_index @ ascii ''. '' @ title p) # before) @ ?L @ after"
    using en_lines_in_document by blast
  have "?L = take (13 * i) ?L @ take 13 (drop (13 * i) ?L) @ drop (13 * i + 13) ?L"
    by (rule list_block)
  then have "build_en_lines p problem_index =
      ((ascii ''# '' @ problem_index @ ascii ''. '' @ title p) # (before @ take (13 * i) ?L))
        @ take 13 (drop (13 * i) ?L) @ (drop (13 * i + 13) ?L @ after)"
    using b by (metis append_Cons append_assoc)
  then have l: "build_en_lines p problem_index =
      ((ascii ''# '' @ problem_index @ ascii ''. '' @ title p) # (before @ take (13 * i) ?L)) @
      [[], ascii ''### Input'',
       [], ascii ''```'', strip (input (examples p ! i)), ascii ''```'', [],
       ascii ''### Output'',
       [], ascii ''```'', strip (output (examples p ! i)), ascii ''```'', []]
        @ (drop (13 * i + 13) ?L @ after)"
    by (simp only: en_block [OF i])
  show ?thesis
    unfolding build_en_md_def
    by (rule block_in_document [OF l fence_facts(5,6,1,2)])
qed

text \<open>
  C3 (as amended). Each example stands in the text of the document with its two headings
  on lines of their own, each followed by an empty line and by the fenced text. In the
  translated document (\<open>build_zh_md\<close>), with exactly one example the two headings carry no
  suffix; with two or more, the heading of the input of the \<open>i\<close>-th example carries a space
  and the number \<open>i\<close>, counted from 1, and the heading of the output carries no suffix. In
  the original-language document (\<open>build_en_md\<close>), with exactly one example the two
  headings carry no suffix. The same is said of the lines the two functions join: thirteen
  lines for each example, between the lines before and after the examples.
\<close>

theorem example_headings:
  "let exs = examples t; ens = examples p;
       zh_doc = build_zh_md problem t contest_id problem_index author;
       en_doc = build_en_md p contest_id problem_index;
       zh_lines = zh_example_lines (length exs) 1 exs;
       en_lines = en_example_lines 1 ens;
       fence = ascii ''```'';
       zh_in = ascii ''### '' @ [36755, 20837];
       zh_out = ascii ''### '' @ [36755, 20986]
   in (length exs = 1 \<longrightarrow>
         py_in ([10] @ zh_in @ [10, 10] @
                fence @ [10] @ strip (input (exs ! 0)) @ [10] @ fence @ [10, 10] @
                zh_out @ [10, 10] @
                fence @ [10] @ strip (output (exs ! 0)) @ [10] @ fence @ [10]) zh_doc) \<and>
      (2 \<le> length exs \<longrightarrow>
         (\<forall>i < length exs.
            py_in ([10] @ (zh_in @ 32 # str_nat (i + 1)) @ [10, 10] @
                   fence @ [10] @ strip (input (exs ! i)) @ [10] @ fence @ [10, 10] @
                   zh_out @ [10, 10] @
                   fence @ [10] @ strip (output (exs ! i)) @ [10] @ fence @ [10]) zh_doc)) \<and>
      (length ens = 1 \<longrightarrow>
         py_in ([10] @ ascii ''### Input'' @ [10, 10] @
                fence @ [10] @ strip (input (ens ! 0)) @ [10] @ fence @ [10, 10] @
                ascii ''### Output'' @ [10, 10] @
                fence @ [10] @ strip (output (ens ! 0)) @ [10] @ fence @ [10]) en_doc) \<and>
      (length exs = 1 \<longrightarrow>
         zh_lines =
           [[], zh_in, [], fence, strip (input (exs ! 0)), fence, [],
            zh_out, [], fence, strip (output (exs ! 0)), fence, []]) \<and>
      (2 \<le> length exs \<longrightarrow>
         (\<forall>i < length exs.
            take 13 (drop (13 * i) zh_lines) =
              [[], zh_in @ 32 # str_nat (i + 1), [], fence, strip (input (exs ! i)), fence, [],
               zh_out, [], fence, strip (output (exs ! i)), fence, []])) \<and>
      (length ens = 1 \<longrightarrow>
         en_lines =
           [[], ascii ''### Input'', [], fence, strip (input (ens ! 0)), fence, [],
            ascii ''### Output'', [], fence, strip (output (ens ! 0)), fence, []]) \<and>
      (exs \<noteq> [] \<longrightarrow>
         (\<exists>before after. zh_doc = strip (join [10] (before @ zh_lines @ after)) @ [10])) \<and>
      (ens \<noteq> [] \<longrightarrow>
         (\<exists>before after. en_doc = strip (join [10] (before @ en_lines @ after)) @ [10]))"
proof -
  let ?exs = "examples t" and ?ens = "examples p"
  let ?zh_doc = "build_zh_md problem t contest_id problem_index author"
  let ?en_doc = "build_en_md p contest_id problem_index"
  let ?fence = "ascii ''```''"
  let ?zh_in = "ascii ''### '' @ [36755, 20837]"
  let ?zh_out = "ascii ''### '' @ [36755, 20986]"
  have d1: "length ?exs = 1 \<longrightarrow>
         py_in ([10] @ ?zh_in @ [10, 10] @
                ?fence @ [10] @ strip (input (?exs ! 0)) @ [10] @ ?fence @ [10, 10] @
                ?zh_out @ [10, 10] @
                ?fence @ [10] @ strip (output (?exs ! 0)) @ [10] @ ?fence @ [10]) ?zh_doc"
  proof
    assume l: "length ?exs = 1"
    then have "0 < length ?exs" by simp
    from zh_example_in_document [OF this, of problem contest_id problem_index author] l
    show "py_in ([10] @ ?zh_in @ [10, 10] @
                ?fence @ [10] @ strip (input (?exs ! 0)) @ [10] @ ?fence @ [10, 10] @
                ?zh_out @ [10, 10] @
                ?fence @ [10] @ strip (output (?exs ! 0)) @ [10] @ ?fence @ [10]) ?zh_doc"
      by simp
  qed
  have d2: "2 \<le> length ?exs \<longrightarrow>
         (\<forall>i < length ?exs.
            py_in ([10] @ (?zh_in @ 32 # str_nat (i + 1)) @ [10, 10] @
                   ?fence @ [10] @ strip (input (?exs ! i)) @ [10] @ ?fence @ [10, 10] @
                   ?zh_out @ [10, 10] @
                   ?fence @ [10] @ strip (output (?exs ! i)) @ [10] @ ?fence @ [10]) ?zh_doc)"
  proof (intro impI allI)
    fix i assume l: "2 \<le> length ?exs" and i: "i < length ?exs"
    from zh_example_in_document [OF i, of problem contest_id problem_index author] l
    show "py_in ([10] @ (?zh_in @ 32 # str_nat (i + 1)) @ [10, 10] @
                   ?fence @ [10] @ strip (input (?exs ! i)) @ [10] @ ?fence @ [10, 10] @
                   ?zh_out @ [10, 10] @
                   ?fence @ [10] @ strip (output (?exs ! i)) @ [10] @ ?fence @ [10]) ?zh_doc"
      by (simp add: add.commute)
  qed
  have d3: "length ?ens = 1 \<longrightarrow>
         py_in ([10] @ ascii ''### Input'' @ [10, 10] @
                ?fence @ [10] @ strip (input (?ens ! 0)) @ [10] @ ?fence @ [10, 10] @
                ascii ''### Output'' @ [10, 10] @
                ?fence @ [10] @ strip (output (?ens ! 0)) @ [10] @ ?fence @ [10]) ?en_doc"
  proof
    assume l: "length ?ens = 1"
    then have "0 < length ?ens" by simp
    from en_example_in_document [OF this, of contest_id problem_index]
    show "py_in ([10] @ ascii ''### Input'' @ [10, 10] @
                ?fence @ [10] @ strip (input (?ens ! 0)) @ [10] @ ?fence @ [10, 10] @
                ascii ''### Output'' @ [10, 10] @
                ?fence @ [10] @ strip (output (?ens ! 0)) @ [10] @ ?fence @ [10]) ?en_doc"
      by simp
  qed
  have a: "length ?exs = 1 \<longrightarrow>
      zh_example_lines (length ?exs) 1 ?exs =
           [[], ?zh_in, [], ?fence, strip (input (?exs ! 0)), ?fence, [],
            ?zh_out, [], ?fence, strip (output (?exs ! 0)), ?fence, []]"
  proof
    assume l: "length ?exs = 1"
    then have "take 13 (drop (13 * 0) (zh_example_lines (length ?exs) 1 ?exs)) =
        zh_example_lines (length ?exs) 1 ?exs"
      by (simp add: zh_lines_length)
    moreover from l have "0 < length ?exs" by simp
    ultimately show "zh_example_lines (length ?exs) 1 ?exs =
           [[], ?zh_in, [], ?fence, strip (input (?exs ! 0)), ?fence, [],
            ?zh_out, [], ?fence, strip (output (?exs ! 0)), ?fence, []]"
      using zh_block [of 0 ?exs "length ?exs" 1] l by simp
  qed
  have b: "2 \<le> length ?exs \<longrightarrow>
         (\<forall>i < length ?exs.
            take 13 (drop (13 * i) (zh_example_lines (length ?exs) 1 ?exs)) =
              [[], ?zh_in @ 32 # str_nat (i + 1), [], ?fence, strip (input (?exs ! i)), ?fence, [],
               ?zh_out, [], ?fence, strip (output (?exs ! i)), ?fence, []])"
    by (simp add: zh_block add.commute)
  have c: "length ?ens = 1 \<longrightarrow>
         en_example_lines 1 ?ens =
           [[], ascii ''### Input'', [], ?fence, strip (input (?ens ! 0)), ?fence, [],
            ascii ''### Output'', [], ?fence, strip (output (?ens ! 0)), ?fence, []]"
  proof
    assume l: "length ?ens = 1"
    then have "take 13 (drop (13 * 0) (en_example_lines 1 ?ens)) = en_example_lines 1 ?ens"
      by (simp add: en_lines_length)
    moreover from l have "0 < length ?ens" by simp
    ultimately show "en_example_lines 1 ?ens =
           [[], ascii ''### Input'', [], ?fence, strip (input (?ens ! 0)), ?fence, [],
            ascii ''### Output'', [], ?fence, strip (output (?ens ! 0)), ?fence, []]"
      using en_block [of 0 ?ens 1] by simp
  qed
  have d: "?exs \<noteq> [] \<longrightarrow>
      (\<exists>before after. ?zh_doc =
         strip (join [10] (before @ zh_example_lines (length ?exs) 1 ?exs @ after)) @ [10])"
  proof
    assume "?exs \<noteq> []"
    then obtain before after where "build_zh_lines t problem_index author =
        (ascii ''---'' # before) @ zh_example_lines (length ?exs) 1 ?exs @ after"
      using zh_lines_in_document by blast
    then have "?zh_doc = strip (join [10]
        ((ascii ''---'' # before) @ zh_example_lines (length ?exs) 1 ?exs @ after)) @ [10]"
      by (simp only: build_zh_md_def)
    then show "\<exists>before after. ?zh_doc =
         strip (join [10] (before @ zh_example_lines (length ?exs) 1 ?exs @ after)) @ [10]"
      by blast
  qed
  have e: "?ens \<noteq> [] \<longrightarrow>
      (\<exists>before after. ?en_doc =
         strip (join [10] (before @ en_example_lines 1 ?ens @ after)) @ [10])"
  proof
    assume "?ens \<noteq> []"
    then obtain before after where "build_en_lines p problem_index =
        ((ascii ''# '' @ problem_index @ ascii ''. '' @ title p) # before)
          @ en_example_lines 1 ?ens @ after"
      using en_lines_in_document by blast
    then have "?en_doc = strip (join [10]
        (((ascii ''# '' @ problem_index @ ascii ''. '' @ title p) # before)
          @ en_example_lines 1 ?ens @ after)) @ [10]"
      by (simp only: build_en_md_def)
    then show "\<exists>before after. ?en_doc =
         strip (join [10] (before @ en_example_lines 1 ?ens @ after)) @ [10]"
      by blast
  qed
  show ?thesis
    unfolding Let_def by (intro conjI d1 d2 d3 a b c d e)
qed

theorem example_headings_witness:
  "py_in ([10] @ ascii ''### '' @ [36755, 20837] @ ascii '' 1'' @ [10, 10] @
          ascii ''```'' @ [10] @ ascii ''1 2'' @ [10] @ ascii ''```'' @ [10, 10] @
          ascii ''### '' @ [36755, 20986] @ [10, 10] @
          ascii ''```'' @ [10] @ ascii ''3'' @ [10] @ ascii ''```'' @ [10])
     (build_zh_md example_problem example_translated 1 (ascii ''A'') (ascii ''me'')) \<and>
   py_in ([10] @ ascii ''### '' @ [36755, 20837] @ ascii '' 2'' @ [10, 10] @
          ascii ''```'' @ [10] @ ascii ''5 7'' @ [10] @ ascii ''```'' @ [10, 10] @
          ascii ''### '' @ [36755, 20986] @ [10, 10] @
          ascii ''```'' @ [10] @ [] @ [10] @ ascii ''```'' @ [10])
     (build_zh_md example_problem example_translated 1 (ascii ''A'') (ascii ''me'')) \<and>
   py_in ([10] @ ascii ''### '' @ [36755, 20837] @ [10, 10] @
          ascii ''```'' @ [10] @ ascii ''1 2'' @ [10] @ ascii ''```'' @ [10, 10] @
          ascii ''### '' @ [36755, 20986] @ [10, 10] @
          ascii ''```'' @ [10] @ ascii ''3'' @ [10] @ ascii ''```'' @ [10])
     (build_zh_md example_problem
        (example_translated\<lparr>examples := [\<lparr>input = ascii ''1 2'' @ [10], output = ascii ''3'' @ [10]\<rparr>]\<rparr>)
        1 (ascii ''A'') (ascii ''me'')) \<and>
   py_in ([10] @ ascii ''### Input'' @ [10, 10] @
          ascii ''```'' @ [10] @ ascii ''1 2'' @ [10] @ ascii ''```'' @ [10, 10] @
          ascii ''### Output'' @ [10, 10] @
          ascii ''```'' @ [10] @ ascii ''3'' @ [10] @ ascii ''```'' @ [10])
     (build_en_md
        (example_problem\<lparr>examples := [\<lparr>input = ascii ''1 2'' @ [10], output = ascii ''3'' @ [10]\<rparr>]\<rparr>)
        1 (ascii ''A'')) \<and>
   take 13 (drop (13 * 1) (zh_example_lines 2 1 (examples example_translated))) =
     [[], ascii ''### '' @ [36755, 20837] @ ascii '' 2'',
      [], ascii ''```'', ascii ''5 7'', ascii ''```'', [],
      ascii ''### '' @ [36755, 20986],
      [], ascii ''```'', [], ascii ''```'', []] \<and>
   zh_example_lines 1 1 [\<lparr>input = ascii ''1 2'' @ [10], output = ascii ''3'' @ [10]\<rparr>] =
     [[], ascii ''### '' @ [36755, 20837],
      [], ascii ''```'', ascii ''1 2'', ascii ''```'', [],
      ascii ''### '' @ [36755, 20986],
      [], ascii ''```'', ascii ''3'', ascii ''```'', []] \<and>
   en_example_lines 1 [\<lparr>input = ascii ''1 2'' @ [10], output = ascii ''3'' @ [10]\<rparr>] =
     [[], ascii ''### Input'',
      [], ascii ''```'', ascii ''1 2'', ascii ''```'', [],
      ascii ''### Output'',
      [], ascii ''```'', ascii ''3'', ascii ''```'', []]"
proof -
  let ?e1 = "\<lparr>input = ascii ''1 2'' @ [10], output = ascii ''3'' @ [10]\<rparr>"
  let ?e2 = "\<lparr>input = ascii ''5 7'' @ [10], output = []\<rparr>"
  let ?zh2 = "build_zh_md example_problem example_translated 1 (ascii ''A'') (ascii ''me'')"
  let ?zh1 = "build_zh_md example_problem (example_translated\<lparr>examples := [?e1]\<rparr>)
        1 (ascii ''A'') (ascii ''me'')"
  let ?en1 = "build_en_md (example_problem\<lparr>examples := [?e1]\<rparr>) 1 (ascii ''A'')"
  have ex: "examples example_translated = [?e1, ?e2]"
    by (simp add: example_translated_def)
  have s: "strip (ascii ''1 2'' @ [10]) = ascii ''1 2''" "strip (ascii ''3'' @ [10]) = ascii ''3''"
    "strip (ascii ''5 7'' @ [10]) = ascii ''5 7''" "strip [] = []"
    by (simp_all add: strip_def lstrip_def rstrip_def isspace_def ascii_def)
  have n: "str_nat (Suc 0) = ascii ''1''" "str_nat (Suc (Suc 0)) = ascii ''2''"
    "str_nat 1 = ascii ''1''" "str_nat 2 = ascii ''2''"
    by (simp_all add: str_nat.simps ascii_def)
  note two = example_headings [where t = example_translated and p = example_problem
      and problem = example_problem and contest_id = 1
      and problem_index = "ascii ''A''" and author = "ascii ''me''", unfolded Let_def]
  note one = example_headings [where t = "example_translated\<lparr>examples := [?e1]\<rparr>"
      and p = "example_problem\<lparr>examples := [?e1]\<rparr>"
      and problem = example_problem and contest_id = 1
      and problem_index = "ascii ''A''" and author = "ascii ''me''", unfolded Let_def]
  have l2: "length (examples example_translated) = 2"
    by (simp add: ex)
  from two l2 have docs: "\<forall>i < 2.
      py_in ([10] @ (ascii ''### '' @ [36755, 20837] @ 32 # str_nat (i + 1)) @ [10, 10] @
             ascii ''```'' @ [10] @ strip (input (examples example_translated ! i)) @ [10] @
             ascii ''```'' @ [10, 10] @ (ascii ''### '' @ [36755, 20986]) @ [10, 10] @
             ascii ''```'' @ [10] @ strip (output (examples example_translated ! i)) @ [10] @
             ascii ''```'' @ [10]) ?zh2"
    by simp
  from two l2 have blocks: "\<forall>i < 2.
      take 13 (drop (13 * i) (zh_example_lines 2 1 (examples example_translated))) =
        [[], ascii ''### '' @ [36755, 20837] @ 32 # str_nat (i + 1),
         [], ascii ''```'', strip (input (examples example_translated ! i)), ascii ''```'', [],
         ascii ''### '' @ [36755, 20986],
         [], ascii ''```'', strip (output (examples example_translated ! i)), ascii ''```'', []]"
    by simp
  have w1: "py_in ([10] @ ascii ''### '' @ [36755, 20837] @ ascii '' 1'' @ [10, 10] @
          ascii ''```'' @ [10] @ ascii ''1 2'' @ [10] @ ascii ''```'' @ [10, 10] @
          ascii ''### '' @ [36755, 20986] @ [10, 10] @
          ascii ''```'' @ [10] @ ascii ''3'' @ [10] @ ascii ''```'' @ [10]) ?zh2"
    using docs [rule_format, of 0] by (simp add: ex s n) (simp add: ascii_def)
  have w2: "py_in ([10] @ ascii ''### '' @ [36755, 20837] @ ascii '' 2'' @ [10, 10] @
          ascii ''```'' @ [10] @ ascii ''5 7'' @ [10] @ ascii ''```'' @ [10, 10] @
          ascii ''### '' @ [36755, 20986] @ [10, 10] @
          ascii ''```'' @ [10] @ [] @ [10] @ ascii ''```'' @ [10]) ?zh2"
    using docs [rule_format, of 1] by (simp add: ex s n) (simp add: ascii_def)
  from one have w3: "py_in ([10] @ ascii ''### '' @ [36755, 20837] @ [10, 10] @
          ascii ''```'' @ [10] @ ascii ''1 2'' @ [10] @ ascii ''```'' @ [10, 10] @
          ascii ''### '' @ [36755, 20986] @ [10, 10] @
          ascii ''```'' @ [10] @ ascii ''3'' @ [10] @ ascii ''```'' @ [10]) ?zh1"
    by (simp add: s)
  from one have w4: "py_in ([10] @ ascii ''### Input'' @ [10, 10] @
          ascii ''```'' @ [10] @ ascii ''1 2'' @ [10] @ ascii ''```'' @ [10, 10] @
          ascii ''### Output'' @ [10, 10] @
          ascii ''```'' @ [10] @ ascii ''3'' @ [10] @ ascii ''```'' @ [10]) ?en1"
    by (simp add: s)
  have b1: "take 13 (drop (13 * 1) (zh_example_lines 2 1 (examples example_translated))) =
     [[], ascii ''### '' @ [36755, 20837] @ ascii '' 2'',
      [], ascii ''```'', ascii ''5 7'', ascii ''```'', [],
      ascii ''### '' @ [36755, 20986],
      [], ascii ''```'', [], ascii ''```'', []]"
    using blocks [rule_format, of 1] by (simp add: ex s n) (simp add: ascii_def)
  from one have z1: "zh_example_lines 1 1 [?e1] =
     [[], ascii ''### '' @ [36755, 20837],
      [], ascii ''```'', ascii ''1 2'', ascii ''```'', [],
      ascii ''### '' @ [36755, 20986],
      [], ascii ''```'', ascii ''3'', ascii ''```'', []]"
    by (simp add: s)
  from one have e1: "en_example_lines 1 [?e1] =
     [[], ascii ''### Input'',
      [], ascii ''```'', ascii ''1 2'', ascii ''```'', [],
      ascii ''### Output'',
      [], ascii ''```'', ascii ''3'', ascii ''```'', []]"
    by (simp add: s)
  show ?thesis
    by (intro conjI w1 w2 w3 w4 b1 z1 e1)
qed

theorem example_headings_counterexample:
  "build_en_md example_problem 1 (ascii ''A'') =
     join [10]
       [ascii ''# A. Example Title'', [], ascii ''Add two numbers.'', [],
        ascii ''## Input'', [], ascii ''Two integers.'', [],
        ascii ''## Output'', [], ascii ''Their sum.'', [],
        ascii ''## Examples'',
        [], ascii ''### Input'', [], ascii ''```'', ascii ''1 2'', ascii ''```'', [],
        ascii ''### Output'', [], ascii ''```'', ascii ''3'', ascii ''```'', [],
        [], ascii ''### Input'', [], ascii ''```'', ascii ''5 7'', ascii ''```'', [],
        ascii ''### Output'', [], ascii ''```'', [], ascii ''```'']
     @ [10] \<and>
   build_zh_md example_problem example_translated 1 (ascii ''A'') (ascii ''me'') =
     join [10]
       [ascii ''---'', ascii ''author: me'', ascii ''---'', [],
        ascii ''# A. Example Title'', [],
        ascii ''## '' @ [39064, 30446, 25551, 36848], [], ascii ''Add two numbers.'', [],
        ascii ''## '' @ [36755, 20837, 26684, 24335], [], ascii ''Two integers.'', [],
        ascii ''## '' @ [36755, 20986, 26684, 24335], [], ascii ''Their sum.'', [],
        ascii ''## '' @ [26679, 20363],
        [], ascii ''### '' @ [36755, 20837] @ ascii '' 1'',
        [], ascii ''```'', ascii ''1 2'', ascii ''```'', [],
        ascii ''### '' @ [36755, 20986], [], ascii ''```'', ascii ''3'', ascii ''```'', [],
        [], ascii ''### '' @ [36755, 20837] @ ascii '' 2'',
        [], ascii ''```'', ascii ''5 7'', ascii ''```'', [],
        ascii ''### '' @ [36755, 20986], [], ascii ''```'', [], ascii ''```'']
     @ [10] \<and>
   \<not> py_in (ascii ''### Input 1'') (build_en_md example_problem 1 (ascii ''A'')) \<and>
   \<not> py_in (ascii ''### Output 1'') (build_en_md example_problem 1 (ascii ''A'')) \<and>
   \<not> py_in (ascii ''### '' @ [36755, 20986] @ ascii '' 1'')
      (build_zh_md example_problem example_translated 1 (ascii ''A'') (ascii ''me''))"
proof -
  have en: "build_en_md example_problem 1 (ascii ''A'') =
     join [10]
       [ascii ''# A. Example Title'', [], ascii ''Add two numbers.'', [],
        ascii ''## Input'', [], ascii ''Two integers.'', [],
        ascii ''## Output'', [], ascii ''Their sum.'', [],
        ascii ''## Examples'',
        [], ascii ''### Input'', [], ascii ''```'', ascii ''1 2'', ascii ''```'', [],
        ascii ''### Output'', [], ascii ''```'', ascii ''3'', ascii ''```'', [],
        [], ascii ''### Input'', [], ascii ''```'', ascii ''5 7'', ascii ''```'', [],
        ascii ''### Output'', [], ascii ''```'', [], ascii ''```'']
     @ [10]"
    by (simp add: build_en_md_def build_en_lines_def example_problem_def strip_def lstrip_def
        rstrip_def isspace_def ascii_def)
  have zh: "build_zh_md example_problem example_translated 1 (ascii ''A'') (ascii ''me'') =
     join [10]
       [ascii ''---'', ascii ''author: me'', ascii ''---'', [],
        ascii ''# A. Example Title'', [],
        ascii ''## '' @ [39064, 30446, 25551, 36848], [], ascii ''Add two numbers.'', [],
        ascii ''## '' @ [36755, 20837, 26684, 24335], [], ascii ''Two integers.'', [],
        ascii ''## '' @ [36755, 20986, 26684, 24335], [], ascii ''Their sum.'', [],
        ascii ''## '' @ [26679, 20363],
        [], ascii ''### '' @ [36755, 20837] @ ascii '' 1'',
        [], ascii ''```'', ascii ''1 2'', ascii ''```'', [],
        ascii ''### '' @ [36755, 20986], [], ascii ''```'', ascii ''3'', ascii ''```'', [],
        [], ascii ''### '' @ [36755, 20837] @ ascii '' 2'',
        [], ascii ''```'', ascii ''5 7'', ascii ''```'', [],
        ascii ''### '' @ [36755, 20986], [], ascii ''```'', [], ascii ''```'']
     @ [10]"
    by (simp add: build_zh_md_def build_zh_lines_def example_translated_def strip_def lstrip_def
        rstrip_def isspace_def ascii_def str_nat.simps Let_def)
  have n1: "\<not> py_in (ascii ''### Input 1'') (build_en_md example_problem 1 (ascii ''A''))"
    unfolding en by (simp add: py_in_def ascii_def sublist_code)
  have n2: "\<not> py_in (ascii ''### Output 1'') (build_en_md example_problem 1 (ascii ''A''))"
    unfolding en by (simp add: py_in_def ascii_def sublist_code)
  have n3: "\<not> py_in (ascii ''### '' @ [36755, 20986] @ ascii '' 1'')
      (build_zh_md example_problem example_translated 1 (ascii ''A'') (ascii ''me''))"
    unfolding zh by (simp add: py_in_def ascii_def sublist_code)
  show ?thesis
    by (intro conjI en zh n1 n2 n3)
qed

end
